theory Spec2Isabelle
  imports Complex_Main
begin

section \<open>Python values and errors\<close>

text \<open>
  The bot keeps its numbers in Python ints and floats. Integer columns are modelled as
  \<open>int\<close>. In the statistics and the battles a quantity that the source computes with a
  float factor (\<open>* 1.5\<close>, \<open>* 0.5\<close>, \<open>* 0.3\<close>, \<open>/ 100\<close>, \<open>// 2\<close> on a float) is the exact
  rational value of the same expression; the rounding of the float operations is not
  modelled there. In the experience curve, where the value itself matters, the float
  operations are parameters. The exceptions a modelled function can raise are values of
  \<open>error\<close>.
\<close>

datatype error = TypeError | ValueError | AttributeError | IndexError | NameError

text \<open>\<open>int(x)\<close> on a float truncates towards zero.\<close>

definition py_int :: "rat \<Rightarrow> int" where
  "py_int x = (if 0 \<le> x then \<lfloor>x\<rfloor> else \<lceil>x\<rceil>)"

definition py_int_of_float :: "real \<Rightarrow> int" where
  "py_int_of_float x = (if 0 \<le> x then \<lfloor>x\<rfloor> else \<lceil>x\<rceil>)"

section \<open>Experience curve\<close>

text \<open>
  The thresholds are the expression \<open>int(100 * (level ** 1.5))\<close>. Its value depends on how
  the float power and the float product round, so the two operations are parameters:
  \<open>pow_float level e\<close> is the float to which \<open>level ** e\<close> evaluates and \<open>mul_float x y\<close>
  the float product of \<open>x\<close> and \<open>y\<close>. A negative int raised to \<open>1.5\<close> is a complex number
  in Python 3, and \<open>int\<close> of a complex number raises \<open>TypeError\<close>.
\<close>

type_synonym float_pow = "int \<Rightarrow> real \<Rightarrow> real"

type_synonym float_mul = "real \<Rightarrow> real \<Rightarrow> real"

definition EXPERIENCE_MULTIPLIER :: real where
  "EXPERIENCE_MULTIPLIER = 3 / 2"

text \<open>\<open>PlayerPet.get_next_level_exp\<close>, on the level of the pet.\<close>

definition pet_get_next_level_exp :: "float_pow \<Rightarrow> float_mul \<Rightarrow> int \<Rightarrow> error + int" where
  "pet_get_next_level_exp pow_float mul_float level =
     (if level < 0 then Inl TypeError
      else Inr (py_int_of_float (mul_float 100 (pow_float level (3 / 2)))))"

text \<open>\<open>calculate_exp_for_level\<close> of \<open>utils\<close>.\<close>

definition calculate_exp_for_level :: "float_pow \<Rightarrow> float_mul \<Rightarrow> int \<Rightarrow> error + int" where
  "calculate_exp_for_level pow_float mul_float level =
     (if level < 0 then Inl TypeError
      else Inr (py_int_of_float (mul_float 100 (pow_float level (3 / 2)))))"

text \<open>
  The statement \<open>def get_next_level_exp(self)\<close> of the player (l.340) stands in the body
  of \<open>add_experience\<close>, after \<open>return level_up\<close>. It is never executed and binds no
  attribute of \<open>Player\<close>. This is the function it would create, on the level of the
  player.
\<close>

definition nested_get_next_level_exp :: "float_pow \<Rightarrow> float_mul \<Rightarrow> int \<Rightarrow> error + int" where
  "nested_get_next_level_exp pow_float mul_float level =
     (if level < 0 then Inl TypeError
      else Inr (py_int_of_float (mul_float 100 (pow_float level EXPERIENCE_MULTIPLIER))))"

section \<open>Players\<close>

text \<open>The columns of \<open>Player\<close> that the modelled operations read or write.\<close>

record player =
  p_id :: int
  p_name :: string
  p_level :: int
  p_experience :: int
  p_batons :: int
  p_strength :: int
  p_agility :: int
  p_intelligence :: int
  p_vitality :: int
  p_energy :: int
  p_max_energy :: int
  p_health :: int
  p_max_health :: int
  p_pvp_rating :: int
  p_wins :: int
  p_losses :: int
  p_crafting_level :: int
  p_crafting_experience :: int

text \<open>
  The call \<open>self.get_next_level_exp()\<close> on a player. \<open>Player\<close> has no attribute of that
  name (see above), so the call raises \<open>AttributeError\<close>.
\<close>

definition player_get_next_level_exp :: "player \<Rightarrow> error + int" where
  "player_get_next_level_exp p = Inl AttributeError"

text \<open>
  \<open>Player.add_experience\<close>: the \<open>while\<close> loop, with the flag \<open>level_up\<close> carried along.
  An exception is returned with the player as it is when the exception is raised.
\<close>

function add_experience_loop :: "player \<Rightarrow> bool \<Rightarrow> (error \<times> player) + (player \<times> bool)" where
  "add_experience_loop p level_up =
     (case player_get_next_level_exp p of
        Inl e \<Rightarrow> Inl (e, p)
      | Inr t \<Rightarrow>
          if p_experience p \<ge> t
          then add_experience_loop
                 (p\<lparr>p_level := p_level p + 1,
                    p_strength := p_strength p + 2,
                    p_agility := p_agility p + 2,
                    p_intelligence := p_intelligence p + 2,
                    p_vitality := p_vitality p + 2,
                    p_max_health := p_max_health p + 20,
                    p_max_energy := p_max_energy p + 10\<rparr>) True
          else Inr (p, level_up))"
  by pat_completeness auto
termination
  by (relation "{}") (simp_all add: player_get_next_level_exp_def)

declare add_experience_loop.simps [simp del]

definition add_experience :: "player \<Rightarrow> int \<Rightarrow> (error \<times> player) + (player \<times> bool)" where
  "add_experience p amount =
     add_experience_loop (p\<lparr>p_experience := p_experience p + amount\<rparr>) False"

text \<open>A freshly created player: the column defaults of \<open>Player\<close>.\<close>

definition new_player :: "int \<Rightarrow> string \<Rightarrow> player" where
  "new_player uid name =
     \<lparr>p_id = uid, p_name = name, p_level = 1, p_experience = 0, p_batons = 100,
      p_strength = 10, p_agility = 10, p_intelligence = 10, p_vitality = 10,
      p_energy = 100, p_max_energy = 100, p_health = 100, p_max_health = 100,
      p_pvp_rating = 1000, p_wins = 0, p_losses = 0,
      p_crafting_level = 1, p_crafting_experience = 0\<rparr>"

section \<open>Stat aggregation\<close>

text \<open>Points in time (\<open>datetime\<close> values) are seconds on a common axis.\<close>

type_synonym time = rat

text \<open>The bonus columns of \<open>Item\<close>.\<close>

record item =
  it_name :: string
  it_strength_bonus :: int
  it_agility_bonus :: int
  it_intelligence_bonus :: int
  it_vitality_bonus :: int
  it_health_bonus :: int
  it_energy_bonus :: int
  it_damage_bonus :: int
  it_defense_bonus :: int

text \<open>\<open>Equipment\<close>: one nullable item id for each slot.\<close>

record equipment =
  weapon_id :: "int option"
  armor_id :: "int option"
  helmet_id :: "int option"
  boots_id :: "int option"
  amulet_id :: "int option"
  ring_id :: "int option"

text \<open>\<open>PlayerBuff\<close>; \<open>stat_bonuses\<close> is a JSON object, kept as its list of entries.\<close>

record player_buff =
  b_player_id :: int
  b_stat_bonuses :: "(string \<times> rat) list"
  b_expires_at :: time

text \<open>The dictionary \<open>total_stats\<close>: it has these ten keys and no others.\<close>

record total_stats =
  ts_strength :: rat
  ts_agility :: rat
  ts_intelligence :: rat
  ts_vitality :: rat
  ts_health :: rat
  ts_energy :: rat
  ts_damage :: rat
  ts_defense :: rat
  ts_critical_chance :: rat
  ts_dodge_chance :: rat

definition initial_total_stats :: "player \<Rightarrow> total_stats" where
  "initial_total_stats p =
     \<lparr>ts_strength = of_int (p_strength p),
      ts_agility = of_int (p_agility p),
      ts_intelligence = of_int (p_intelligence p),
      ts_vitality = of_int (p_vitality p),
      ts_health = of_int (p_max_health p),
      ts_energy = of_int (p_max_energy p),
      ts_damage = of_int (p_strength p * 2),
      ts_defense = of_int (p_vitality p) * (3 / 2),
      ts_critical_chance = of_int (p_agility p) * (1 / 2),
      ts_dodge_chance = of_int (p_agility p) * (3 / 10)\<rparr>"

definition add_item_bonuses :: "total_stats \<Rightarrow> item \<Rightarrow> total_stats" where
  "add_item_bonuses t it =
     t\<lparr>ts_strength := ts_strength t + of_int (it_strength_bonus it),
       ts_agility := ts_agility t + of_int (it_agility_bonus it),
       ts_intelligence := ts_intelligence t + of_int (it_intelligence_bonus it),
       ts_vitality := ts_vitality t + of_int (it_vitality_bonus it),
       ts_health := ts_health t + of_int (it_health_bonus it),
       ts_energy := ts_energy t + of_int (it_energy_bonus it),
       ts_damage := ts_damage t + of_int (it_damage_bonus it),
       ts_defense := ts_defense t + of_int (it_defense_bonus it)\<rparr>"

text \<open>
  The item of one slot: \<open>if item_id:\<close> skips a missing id and the id 0,
  \<open>if item:\<close> skips an id that is not in the item table.
\<close>

definition slot_item :: "(int \<rightharpoonup> item) \<Rightarrow> int option \<Rightarrow> item option" where
  "slot_item items slot =
     (case slot of
        None \<Rightarrow> None
      | Some item_id \<Rightarrow> if item_id = 0 then None else items item_id)"

definition apply_slot :: "(int \<rightharpoonup> item) \<Rightarrow> total_stats \<Rightarrow> int option \<Rightarrow> total_stats" where
  "apply_slot items t slot =
     (case slot_item items slot of None \<Rightarrow> t | Some it \<Rightarrow> add_item_bonuses t it)"

definition equipment_slots :: "equipment \<Rightarrow> int option list" where
  "equipment_slots eq =
     [weapon_id eq, armor_id eq, helmet_id eq, boots_id eq, amulet_id eq, ring_id eq]"

definition apply_equipment ::
  "(int \<rightharpoonup> item) \<Rightarrow> equipment option \<Rightarrow> total_stats \<Rightarrow> total_stats" where
  "apply_equipment items equip t =
     (case equip of
        None \<Rightarrow> t
      | Some eq \<Rightarrow> foldl (apply_slot items) t (equipment_slots eq))"

text \<open>\<open>if stat in total_stats: total_stats[stat] += bonus\<close>.\<close>

definition apply_buff_stat :: "total_stats \<Rightarrow> string \<times> rat \<Rightarrow> total_stats" where
  "apply_buff_stat t e =
     (let stat = fst e; bonus = snd e in
      if stat = ''strength'' then t\<lparr>ts_strength := ts_strength t + bonus\<rparr>
      else if stat = ''agility'' then t\<lparr>ts_agility := ts_agility t + bonus\<rparr>
      else if stat = ''intelligence'' then t\<lparr>ts_intelligence := ts_intelligence t + bonus\<rparr>
      else if stat = ''vitality'' then t\<lparr>ts_vitality := ts_vitality t + bonus\<rparr>
      else if stat = ''health'' then t\<lparr>ts_health := ts_health t + bonus\<rparr>
      else if stat = ''energy'' then t\<lparr>ts_energy := ts_energy t + bonus\<rparr>
      else if stat = ''damage'' then t\<lparr>ts_damage := ts_damage t + bonus\<rparr>
      else if stat = ''defense'' then t\<lparr>ts_defense := ts_defense t + bonus\<rparr>
      else if stat = ''critical_chance''
        then t\<lparr>ts_critical_chance := ts_critical_chance t + bonus\<rparr>
      else if stat = ''dodge_chance'' then t\<lparr>ts_dodge_chance := ts_dodge_chance t + bonus\<rparr>
      else t)"

definition apply_buff :: "total_stats \<Rightarrow> player_buff \<Rightarrow> total_stats" where
  "apply_buff t buff = foldl apply_buff_stat t (b_stat_bonuses buff)"

text \<open>The query for the buffs of the player that have not expired.\<close>

definition active_buffs :: "player \<Rightarrow> player_buff list \<Rightarrow> time \<Rightarrow> player_buff list" where
  "active_buffs p buffs now =
     filter (\<lambda>b. b_player_id b = p_id p \<and> b_expires_at b > now) buffs"

text \<open>
  \<open>Player.get_total_stats\<close>. The session is represented by what the method reads from
  it: the player's equipment row, the item table, the buff table and the clock.
\<close>

definition get_total_stats ::
  "player \<Rightarrow> equipment option \<Rightarrow> (int \<rightharpoonup> item) \<Rightarrow> player_buff list \<Rightarrow> time \<Rightarrow> total_stats" where
  "get_total_stats p equip items buffs now =
     foldl apply_buff (apply_equipment items equip (initial_total_stats p))
       (active_buffs p buffs now)"

text \<open>For the statement of the totals: the equipped items and the sum of the active
  buff entries under one name.\<close>

definition equipped_items :: "(int \<rightharpoonup> item) \<Rightarrow> equipment option \<Rightarrow> item list" where
  "equipped_items items equip =
     (case equip of
        None \<Rightarrow> []
      | Some eq \<Rightarrow> List.map_filter (slot_item items) (equipment_slots eq))"

definition buff_entries :: "player \<Rightarrow> player_buff list \<Rightarrow> time \<Rightarrow> (string \<times> rat) list" where
  "buff_entries p buffs now = concat (map b_stat_bonuses (active_buffs p buffs now))"

definition named_sum :: "string \<Rightarrow> (string \<times> rat) list \<Rightarrow> rat" where
  "named_sum stat es = sum_list (map snd (filter (\<lambda>e. fst e = stat) es))"

definition item_sum :: "(item \<Rightarrow> int) \<Rightarrow> item list \<Rightarrow> rat" where
  "item_sum f its = of_int (sum_list (map f its))"

text \<open>An item for the examples.\<close>

definition sword :: item where
  "sword = \<lparr>it_name = ''sword'', it_strength_bonus = 5, it_agility_bonus = 2,
            it_intelligence_bonus = 0, it_vitality_bonus = 4, it_health_bonus = 0,
            it_energy_bonus = 0, it_damage_bonus = 3, it_defense_bonus = 1\<rparr>"

section \<open>Random numbers\<close>

text \<open>
  The generator behind \<open>random\<close> is represented by the sequence of its raw outputs; the
  position in the sequence is threaded through every function that draws. A call of
  \<open>random.random()\<close> returns \<open>k / 2 ^ 53\<close> for an integer \<open>0 \<le> k < 2 ^ 53\<close>;
  \<open>random.randint(a, b)\<close> raises \<open>ValueError\<close> on an empty range; \<open>random.choice\<close>
  picks by index from a list that is not empty.
\<close>

type_synonym rng = "nat \<Rightarrow> nat"

definition random_random :: "rng \<Rightarrow> nat \<Rightarrow> rat" where
  "random_random g i = of_nat (g i mod 2 ^ 53) / 2 ^ 53"

definition random_randint :: "rng \<Rightarrow> nat \<Rightarrow> int \<Rightarrow> int \<Rightarrow> error + int" where
  "random_randint g i a b =
     (if a > b then Inl ValueError else Inr (a + int (g i mod nat (b - a + 1))))"

definition random_choice :: "rng \<Rightarrow> nat \<Rightarrow> 'a list \<Rightarrow> 'a" where
  "random_choice g i xs = xs ! (g i mod length xs)"

text \<open>A generator that returns the same raw value at every call.\<close>

definition constant_rng :: "nat \<Rightarrow> rng" where
  "constant_rng k i = k"

section \<open>Monsters and the battle with a monster\<close>

record monster =
  m_name :: string
  m_health :: int
  m_damage :: int
  m_defense :: int
  m_experience_reward :: int
  m_baton_reward_min :: int
  m_baton_reward_max :: int
  m_drop_table :: "(int \<times> rat) list"

text \<open>The entries of \<open>battle_log\<close>: the kind of event, the actor and the amount.\<close>

datatype battle_event =
  CriticalHit string rat
  | Hit string rat
  | Dodge string
  | MonsterHit string rat
  | PetAction string

text \<open>
  What a handler reads from the database session besides the rows it is given: the item
  table, the equipment row of each player and the buff table.
\<close>

record session =
  s_items :: "int \<rightharpoonup> item"
  s_equipment :: "int \<rightharpoonup> equipment"
  s_buffs :: "player_buff list"

definition player_total_stats :: "session \<Rightarrow> time \<Rightarrow> player \<Rightarrow> total_stats" where
  "player_total_stats sess now p =
     get_total_stats p (s_equipment sess (p_id p)) (s_items sess) (s_buffs sess) now"

text \<open>The local variables of the round loop, with the position of the generator.\<close>

record battle_state =
  bs_player_hp :: rat
  bs_monster_hp :: rat
  bs_rounds :: nat
  bs_battle_log :: "battle_event list"
  bs_rng_pos :: nat

text \<open>\<open>battle_calculation\<close>, the player's move of one round.\<close>

definition player_turn ::
  "rng \<Rightarrow> string \<Rightarrow> total_stats \<Rightarrow> monster \<Rightarrow> battle_state \<Rightarrow> battle_state" where
  "player_turn g name player_stats mon s =
     (let player_damage = max 1 (ts_damage player_stats - of_int (m_defense mon div 2));
          crit_chance = random_random g (bs_rng_pos s) < ts_critical_chance player_stats / 100;
          player_damage = (if crit_chance then player_damage * 2 else player_damage)
      in s\<lparr>bs_monster_hp := bs_monster_hp s - player_damage,
            bs_battle_log := bs_battle_log s @
              [if crit_chance then CriticalHit name player_damage else Hit name player_damage],
            bs_rng_pos := bs_rng_pos s + 1\<rparr>)"

text \<open>The monster's move; \<open>player_stats['defense']\<close> is a float, so \<open>// 2\<close> floors it.\<close>

definition monster_turn ::
  "rng \<Rightarrow> string \<Rightarrow> total_stats \<Rightarrow> monster \<Rightarrow> battle_state \<Rightarrow> battle_state" where
  "monster_turn g name player_stats mon s =
     (if bs_monster_hp s > 0 then
        let monster_damage =
              max 1 (of_int (m_damage mon) - of_int \<lfloor>ts_defense player_stats / 2\<rfloor>);
            dodge_chance = random_random g (bs_rng_pos s) < ts_dodge_chance player_stats / 100
        in if dodge_chance
           then s\<lparr>bs_battle_log := bs_battle_log s @ [Dodge name],
                  bs_rng_pos := bs_rng_pos s + 1\<rparr>
           else s\<lparr>bs_player_hp := bs_player_hp s - monster_damage,
                  bs_battle_log := bs_battle_log s @ [MonsterHit (m_name mon) monster_damage],
                  bs_rng_pos := bs_rng_pos s + 1\<rparr>
      else s)"

definition battle_round ::
  "rng \<Rightarrow> string \<Rightarrow> total_stats \<Rightarrow> monster \<Rightarrow> battle_state \<Rightarrow> battle_state" where
  "battle_round g name player_stats mon s =
     (let s1 = player_turn g name player_stats mon s;
          s2 = monster_turn g name player_stats mon s1
      in s2\<lparr>bs_rounds := bs_rounds s2 + 1\<rparr>)"

lemma battle_round_rounds [simp]:
  "bs_rounds (battle_round g name player_stats mon s) = bs_rounds s + 1"
  by (simp add: battle_round_def player_turn_def monster_turn_def Let_def)

function battle_loop ::
  "rng \<Rightarrow> string \<Rightarrow> total_stats \<Rightarrow> monster \<Rightarrow> battle_state \<Rightarrow> battle_state" where
  "battle_loop g name player_stats mon s =
     (if bs_player_hp s > 0 \<and> bs_monster_hp s > 0 \<and> bs_rounds s < 20
      then battle_loop g name player_stats mon (battle_round g name player_stats mon s)
      else s)"
  by pat_completeness auto
termination
  by (relation "measure (\<lambda>(g, name, player_stats, mon, s). 20 - bs_rounds s)") auto

declare battle_loop.simps [simp del]

text \<open>The state in which the loop of \<open>battle_calculation\<close> ends.\<close>

definition battle_final ::
  "rng \<Rightarrow> nat \<Rightarrow> session \<Rightarrow> time \<Rightarrow> player \<Rightarrow> monster \<Rightarrow> battle_state" where
  "battle_final g pos sess now p mon =
     (let player_stats = player_total_stats sess now p
      in battle_loop g (p_name p) player_stats mon
           \<lparr>bs_player_hp = ts_health player_stats,
            bs_monster_hp = of_int (m_health mon),
            bs_rounds = 0,
            bs_battle_log = [],
            bs_rng_pos = pos\<rparr>)"

record battle_result =
  br_victory :: bool
  br_remaining_hp :: rat
  br_battle_log :: "battle_event list"
  br_rounds :: nat

text \<open>\<open>battle_calculation\<close>: the returned dictionary and the new position of the generator.\<close>

definition battle_calculation ::
  "rng \<Rightarrow> nat \<Rightarrow> session \<Rightarrow> time \<Rightarrow> player \<Rightarrow> monster \<Rightarrow> battle_result \<times> nat" where
  "battle_calculation g pos sess now p mon =
     (let s = battle_final g pos sess now p mon;
          victory = bs_player_hp s > 0
      in (\<lparr>br_victory = victory,
           br_remaining_hp = bs_player_hp s,
           br_battle_log = bs_battle_log s,
           br_rounds = bs_rounds s\<rparr>, bs_rng_pos s))"

section \<open>The battle between two players\<close>

text \<open>The loop of \<open>process_pvp_attack\<close>; \<open>bs_monster_hp\<close> holds \<open>opponent_hp\<close>.\<close>

definition pvp_player_turn ::
  "rng \<Rightarrow> string \<Rightarrow> string \<Rightarrow> total_stats \<Rightarrow> total_stats \<Rightarrow> battle_state \<Rightarrow> battle_state" where
  "pvp_player_turn g name opponent_name player_stats opponent_stats s =
     (let player_damage =
            max 1 (ts_damage player_stats - of_int \<lfloor>ts_defense opponent_stats / 2\<rfloor>);
          crit_chance = random_random g (bs_rng_pos s) < ts_critical_chance player_stats / 100;
          player_damage = (if crit_chance then player_damage * 2 else player_damage);
          log = bs_battle_log s @
              [if crit_chance then CriticalHit name player_damage else Hit name player_damage];
          dodge_chance =
            random_random g (bs_rng_pos s + 1) < ts_dodge_chance opponent_stats / 100
      in if dodge_chance
         then s\<lparr>bs_battle_log := log @ [Dodge opponent_name], bs_rng_pos := bs_rng_pos s + 2\<rparr>
         else s\<lparr>bs_monster_hp := bs_monster_hp s - player_damage,
                bs_battle_log := log, bs_rng_pos := bs_rng_pos s + 2\<rparr>)"

definition pvp_opponent_turn ::
  "rng \<Rightarrow> string \<Rightarrow> string \<Rightarrow> total_stats \<Rightarrow> total_stats \<Rightarrow> battle_state \<Rightarrow> battle_state" where
  "pvp_opponent_turn g name opponent_name player_stats opponent_stats s =
     (if bs_monster_hp s > 0 then
        let opponent_damage =
              max 1 (ts_damage opponent_stats - of_int \<lfloor>ts_defense player_stats / 2\<rfloor>);
            crit_chance =
              random_random g (bs_rng_pos s) < ts_critical_chance opponent_stats / 100;
            opponent_damage = (if crit_chance then opponent_damage * 2 else opponent_damage);
            log = bs_battle_log s @
              [if crit_chance then CriticalHit opponent_name opponent_damage
               else Hit opponent_name opponent_damage];
            dodge_chance =
              random_random g (bs_rng_pos s + 1) < ts_dodge_chance player_stats / 100
        in if dodge_chance
           then s\<lparr>bs_battle_log := log @ [Dodge name], bs_rng_pos := bs_rng_pos s + 2\<rparr>
           else s\<lparr>bs_player_hp := bs_player_hp s - opponent_damage,
                  bs_battle_log := log, bs_rng_pos := bs_rng_pos s + 2\<rparr>
      else s)"

definition pvp_round ::
  "rng \<Rightarrow> string \<Rightarrow> string \<Rightarrow> total_stats \<Rightarrow> total_stats \<Rightarrow> battle_state \<Rightarrow> battle_state" where
  "pvp_round g name opponent_name player_stats opponent_stats s =
     (let s1 = pvp_player_turn g name opponent_name player_stats opponent_stats s;
          s2 = pvp_opponent_turn g name opponent_name player_stats opponent_stats s1
      in s2\<lparr>bs_rounds := bs_rounds s2 + 1\<rparr>)"

lemma pvp_round_rounds [simp]:
  "bs_rounds (pvp_round g name opponent_name player_stats opponent_stats s) = bs_rounds s + 1"
  by (simp add: pvp_round_def pvp_player_turn_def pvp_opponent_turn_def Let_def)

function pvp_loop ::
  "rng \<Rightarrow> string \<Rightarrow> string \<Rightarrow> total_stats \<Rightarrow> total_stats \<Rightarrow> battle_state \<Rightarrow> battle_state" where
  "pvp_loop g name opponent_name player_stats opponent_stats s =
     (if bs_player_hp s > 0 \<and> bs_monster_hp s > 0 \<and> bs_rounds s < 20
      then pvp_loop g name opponent_name player_stats opponent_stats
             (pvp_round g name opponent_name player_stats opponent_stats s)
      else s)"
  by pat_completeness auto
termination
  by (relation "measure (\<lambda>(g, name, opponent_name, player_stats, opponent_stats, s).
        20 - bs_rounds s)") auto

declare pvp_loop.simps [simp del]

section \<open>Pets and the dungeon battle\<close>

record pet_ability =
  pa_id :: int
  pa_name :: string
  pa_type :: string
  pa_effect :: "(string \<times> rat) list"
  pa_cooldown :: int
  pa_required_evolution :: int

record pet =
  pet_name :: string
  pet_base_damage :: int
  pet_base_defense :: int
  pet_base_health :: int
  pet_evolution_level :: int
  pet_abilities :: "pet_ability list"

record player_pet =
  pp_nickname :: "string option"
  pp_level :: int
  pp_experience :: int
  pp_bonus_stats :: "(string \<times> rat) list"
  pp_pet :: pet

text \<open>\<open>d.get(key, 0)\<close> on a JSON object.\<close>

definition dict_get0 :: "(string \<times> rat) list \<Rightarrow> string \<Rightarrow> rat" where
  "dict_get0 d key = (case map_of d key of None \<Rightarrow> 0 | Some v \<Rightarrow> v)"

record pet_stats =
  ps_damage :: int
  ps_defense :: int
  ps_health :: int

text \<open>\<open>PlayerPet.get_total_stats\<close>.\<close>

definition pet_get_total_stats :: "player_pet \<Rightarrow> pet_stats" where
  "pet_get_total_stats pp =
     (let level_multiplier = 1 + of_int (pp_level pp - 1) * (1 / 10)
      in \<lparr>ps_damage = py_int (of_int (pet_base_damage (pp_pet pp)) * level_multiplier
                          + dict_get0 (pp_bonus_stats pp) ''damage''),
           ps_defense = py_int (of_int (pet_base_defense (pp_pet pp)) * level_multiplier
                          + dict_get0 (pp_bonus_stats pp) ''defense''),
           ps_health = py_int (of_int (pet_base_health (pp_pet pp)) * level_multiplier
                          + dict_get0 (pp_bonus_stats pp) ''health'')\<rparr>)"

text \<open>\<open>DungeonPetEffect.apply_passive_effects\<close>.\<close>

definition passive_abilities :: "player_pet \<Rightarrow> pet_ability list" where
  "passive_abilities pp =
     filter (\<lambda>a. pa_type a = ''passive''
                \<and> pa_required_evolution a \<le> pet_evolution_level (pp_pet pp))
       (pet_abilities (pp_pet pp))"

definition apply_passive_effects :: "player_pet \<Rightarrow> total_stats \<Rightarrow> total_stats" where
  "apply_passive_effects pp player_stats =
     (let pet_stats = pet_get_total_stats pp;
          t = player_stats
            \<lparr>ts_damage := ts_damage player_stats + of_int (py_int (of_int (ps_damage pet_stats) * (2 / 10))),
             ts_defense := ts_defense player_stats + of_int (py_int (of_int (ps_defense pet_stats) * (2 / 10))),
             ts_health := ts_health player_stats + of_int (py_int (of_int (ps_health pet_stats) * (2 / 10)))\<rparr>
      in foldl (\<lambda>t a. foldl apply_buff_stat t (pa_effect a)) t (passive_abilities pp))"

text \<open>The dictionary \<open>battle_state\<close> of \<open>dungeon_battle\<close>, the other local variables of
  its loop, the cooldowns of the pet's abilities and the position of the generator.\<close>

record dungeon_state =
  ds_player_hp :: rat
  ds_player_max_hp :: rat
  ds_monster_hp :: rat
  ds_monster_max_hp :: rat
  ds_rounds :: nat
  ds_battle_log :: "battle_event list"
  ds_ability_cooldowns :: "int \<rightharpoonup> int"
  ds_rng_pos :: nat

definition available_abilities :: "player_pet \<Rightarrow> (int \<rightharpoonup> int) \<Rightarrow> pet_ability list" where
  "available_abilities pp cooldowns =
     filter (\<lambda>a. pa_type a = ''combat''
                \<and> pa_required_evolution a \<le> pet_evolution_level (pp_pet pp)
                \<and> (case cooldowns (pa_id a) of None \<Rightarrow> 0 | Some c \<Rightarrow> c) \<le> 0)
       (pet_abilities (pp_pet pp))"

text \<open>\<open>DungeonPetEffect.use_combat_ability\<close>, with the append of its text to the log.\<close>

definition use_combat_ability :: "rng \<Rightarrow> player_pet \<Rightarrow> dungeon_state \<Rightarrow> dungeon_state" where
  "use_combat_ability g pp s =
     (let available = available_abilities pp (ds_ability_cooldowns s)
      in if available = [] then s
         else
           let ability = random_choice g (ds_rng_pos s) available;
               s1 = s\<lparr>ds_ability_cooldowns :=
                        (ds_ability_cooldowns s)(pa_id ability \<mapsto> pa_cooldown ability),
                      ds_rng_pos := ds_rng_pos s + 1\<rparr>;
               s2 = (case map_of (pa_effect ability) ''damage'' of
                       None \<Rightarrow> s1
                     | Some damage \<Rightarrow> s1\<lparr>ds_monster_hp := ds_monster_hp s1 - damage\<rparr>);
               s3 = (case map_of (pa_effect ability) ''heal'' of
                       None \<Rightarrow> s2
                     | Some heal \<Rightarrow>
                         s2\<lparr>ds_player_hp := min (ds_player_hp s2 + heal) (ds_player_max_hp s2)\<rparr>)
           in s3\<lparr>ds_battle_log := ds_battle_log s3 @ [PetAction (pa_name ability)]\<rparr>)"

text \<open>\<open>DungeonPetEffect.update_cooldowns\<close>.\<close>

definition update_cooldowns :: "(int \<rightharpoonup> int) \<Rightarrow> (int \<rightharpoonup> int)" where
  "update_cooldowns cooldowns = (\<lambda>ability_id. map_option (\<lambda>c. max 0 (c - 1)) (cooldowns ability_id))"

definition dungeon_player_turn ::
  "rng \<Rightarrow> string \<Rightarrow> total_stats \<Rightarrow> monster \<Rightarrow> dungeon_state \<Rightarrow> dungeon_state" where
  "dungeon_player_turn g name player_stats mon s =
     (let player_damage = max 1 (ts_damage player_stats - of_int (m_defense mon div 2));
          crit_chance = random_random g (ds_rng_pos s) < ts_critical_chance player_stats / 100;
          player_damage = (if crit_chance then player_damage * 2 else player_damage)
      in s\<lparr>ds_monster_hp := ds_monster_hp s - player_damage,
            ds_battle_log := ds_battle_log s @
              [if crit_chance then CriticalHit name player_damage else Hit name player_damage],
            ds_rng_pos := ds_rng_pos s + 1\<rparr>)"

definition dungeon_pet_turn ::
  "rng \<Rightarrow> player_pet option \<Rightarrow> dungeon_state \<Rightarrow> dungeon_state" where
  "dungeon_pet_turn g pet_effect s =
     (case pet_effect of
        None \<Rightarrow> s
      | Some pp \<Rightarrow> if ds_monster_hp s > 0 then use_combat_ability g pp s else s)"

definition dungeon_monster_turn ::
  "rng \<Rightarrow> string \<Rightarrow> total_stats \<Rightarrow> monster \<Rightarrow> dungeon_state \<Rightarrow> dungeon_state" where
  "dungeon_monster_turn g name player_stats mon s =
     (if ds_monster_hp s > 0 then
        let monster_damage =
              max 1 (of_int (m_damage mon) - of_int \<lfloor>ts_defense player_stats / 2\<rfloor>);
            dodge_chance = random_random g (ds_rng_pos s) < ts_dodge_chance player_stats / 100
        in if dodge_chance
           then s\<lparr>ds_battle_log := ds_battle_log s @ [Dodge name],
                  ds_rng_pos := ds_rng_pos s + 1\<rparr>
           else s\<lparr>ds_player_hp := ds_player_hp s - monster_damage,
                  ds_battle_log := ds_battle_log s @ [MonsterHit (m_name mon) monster_damage],
                  ds_rng_pos := ds_rng_pos s + 1\<rparr>
      else s)"

definition dungeon_round ::
  "rng \<Rightarrow> string \<Rightarrow> player_pet option \<Rightarrow> total_stats \<Rightarrow> monster \<Rightarrow> dungeon_state
     \<Rightarrow> dungeon_state" where
  "dungeon_round g name pet_effect player_stats mon s =
     (let s1 = dungeon_player_turn g name player_stats mon s;
          s2 = dungeon_pet_turn g pet_effect s1;
          s3 = dungeon_monster_turn g name player_stats mon s2;
          s4 = (case pet_effect of
                  None \<Rightarrow> s3
                | Some pp \<Rightarrow>
                    s3\<lparr>ds_ability_cooldowns := update_cooldowns (ds_ability_cooldowns s3)\<rparr>)
      in s4\<lparr>ds_rounds := ds_rounds s4 + 1\<rparr>)"

lemma use_combat_ability_rounds: "ds_rounds (use_combat_ability g pp s) = ds_rounds s"
  by (cases "available_abilities pp (ds_ability_cooldowns s) = []")
     (simp_all add: use_combat_ability_def Let_def split: option.split)

lemma dungeon_player_turn_rounds: "ds_rounds (dungeon_player_turn g name st mon s) = ds_rounds s"
  by (simp add: dungeon_player_turn_def Let_def)

lemma dungeon_pet_turn_rounds: "ds_rounds (dungeon_pet_turn g pet_effect s) = ds_rounds s"
  by (cases pet_effect) (simp_all add: dungeon_pet_turn_def use_combat_ability_rounds)

lemma dungeon_monster_turn_rounds: "ds_rounds (dungeon_monster_turn g name st mon s) = ds_rounds s"
  by (simp add: dungeon_monster_turn_def Let_def)

lemma dungeon_round_rounds [simp]:
  "ds_rounds (dungeon_round g name pet_effect player_stats mon s) = ds_rounds s + 1"
  by (cases pet_effect)
     (simp_all add: dungeon_round_def Let_def dungeon_player_turn_rounds dungeon_pet_turn_rounds
        dungeon_monster_turn_rounds)

function dungeon_loop ::
  "rng \<Rightarrow> string \<Rightarrow> player_pet option \<Rightarrow> total_stats \<Rightarrow> monster \<Rightarrow> dungeon_state
     \<Rightarrow> dungeon_state" where
  "dungeon_loop g name pet_effect player_stats mon s =
     (if ds_player_hp s > 0 \<and> ds_monster_hp s > 0 \<and> ds_rounds s < 20
      then dungeon_loop g name pet_effect player_stats mon
             (dungeon_round g name pet_effect player_stats mon s)
      else s)"
  by pat_completeness auto
termination
  by (relation "measure (\<lambda>(g, name, pet_effect, player_stats, mon, s). 20 - ds_rounds s)") auto

declare dungeon_loop.simps [simp del]

text \<open>The statistics with which \<open>dungeon_battle\<close> fights, and the state in which its loop
  ends. The active pet of the player is the row the query returns, if any.\<close>

definition dungeon_player_stats ::
  "session \<Rightarrow> time \<Rightarrow> player \<Rightarrow> player_pet option \<Rightarrow> total_stats" where
  "dungeon_player_stats sess now p pet_effect =
     (case pet_effect of
        None \<Rightarrow> player_total_stats sess now p
      | Some pp \<Rightarrow> apply_passive_effects pp (player_total_stats sess now p))"

definition dungeon_final ::
  "rng \<Rightarrow> nat \<Rightarrow> session \<Rightarrow> time \<Rightarrow> player \<Rightarrow> player_pet option \<Rightarrow> monster \<Rightarrow> dungeon_state" where
  "dungeon_final g pos sess now p pet_effect mon =
     (let player_stats = dungeon_player_stats sess now p pet_effect
      in dungeon_loop g (p_name p) pet_effect player_stats mon
           \<lparr>ds_player_hp = ts_health player_stats,
            ds_player_max_hp = ts_health player_stats,
            ds_monster_hp = of_int (m_health mon),
            ds_monster_max_hp = of_int (m_health mon),
            ds_rounds = 0,
            ds_battle_log = [],
            ds_ability_cooldowns = Map.empty,
            ds_rng_pos = pos\<rparr>)"

definition dungeon_battle ::
  "rng \<Rightarrow> nat \<Rightarrow> session \<Rightarrow> time \<Rightarrow> player \<Rightarrow> player_pet option \<Rightarrow> monster
     \<Rightarrow> battle_result \<times> nat" where
  "dungeon_battle g pos sess now p pet_effect mon =
     (let s = dungeon_final g pos sess now p pet_effect mon;
          victory = ds_player_hp s > 0
      in (\<lparr>br_victory = victory,
           br_remaining_hp = ds_player_hp s,
           br_battle_log = ds_battle_log s,
           br_rounds = ds_rounds s\<rparr>, ds_rng_pos s))"

section \<open>Handlers and the database session\<close>

text \<open>
  A handler opens a session of its own, loads rows, changes them in memory and calls
  \<open>session.commit()\<close> on the paths that succeed. Its model returns the answer sent to
  the user, the rows as the session holds them when the handler returns, and whether the
  session was committed. What the database holds afterwards is \<open>persisted\<close>: the rows
  of the session after a commit, the rows that were loaded otherwise. A handler that
  raises returns an \<open>error\<close> and has committed nothing.
\<close>

datatype reply =
  NotEnoughEnergy
  | NotEnoughMaterials
  | DungeonNotFound
  | DungeonOnCooldown
  | DungeonEntered
  | ItemCreated
  | PvpVictory
  | PvpDefeat

record 's outcome =
  o_reply :: reply
  o_rows :: 's
  o_committed :: bool

definition persisted :: "'s \<Rightarrow> error + 's outcome \<Rightarrow> 's" where
  "persisted rows r =
     (case r of
        Inl e \<Rightarrow> rows
      | Inr out \<Rightarrow> if o_committed out then o_rows out else rows)"

text \<open>The answers with which a handler turns a request down.\<close>

definition rejection :: "reply \<Rightarrow> bool" where
  "rejection r = (r = NotEnoughEnergy \<or> r = NotEnoughMaterials \<or> r = DungeonNotFound
                  \<or> r = DungeonOnCooldown)"

subsection \<open>The arena\<close>

text \<open>Python's \<open>round\<close> rounds a tie to the even neighbour.\<close>

definition py_round :: "real \<Rightarrow> int" where
  "py_round x =
     (let f = \<lfloor>x\<rfloor>; d = x - of_int f in
      if d < 1 / 2 then f else if d > 1 / 2 then f + 1 else if even f then f else f + 1)"

definition calculate_rating_change :: "int \<Rightarrow> int \<Rightarrow> bool \<Rightarrow> int" where
  "calculate_rating_change winner_rating loser_rating is_winner =
     (let K = 32;
          expected = 1 / (1 + 10 powr (real_of_int (loser_rating - winner_rating) / 400));
          change = py_round (if is_winner then K * (1 - expected) else K * (0 - expected))
      in \<bar>change\<bar>)"

text \<open>The state in which the loop of \<open>process_pvp_attack\<close> ends; the statistics of the two
  players are read one after the other.\<close>

definition pvp_final ::
  "rng \<Rightarrow> nat \<Rightarrow> session \<Rightarrow> time \<Rightarrow> time \<Rightarrow> player \<Rightarrow> player \<Rightarrow> battle_state" where
  "pvp_final g pos sess now now' p opponent =
     (let player_stats = player_total_stats sess now p;
          opponent_stats = player_total_stats sess now' opponent
      in pvp_loop g (p_name p) (p_name opponent) player_stats opponent_stats
           \<lparr>bs_player_hp = ts_health player_stats,
            bs_monster_hp = ts_health opponent_stats,
            bs_rounds = 0,
            bs_battle_log = [],
            bs_rng_pos = pos\<rparr>)"

text \<open>
  \<open>process_pvp_attack\<close>. The opponent is the row found for the id in the callback data,
  if there is one; without it \<open>opponent.get_total_stats\<close> raises.
\<close>

definition process_pvp_attack ::
  "rng \<Rightarrow> nat \<Rightarrow> session \<Rightarrow> time \<Rightarrow> time \<Rightarrow> player \<Rightarrow> player option
     \<Rightarrow> error + (player \<times> player option) outcome" where
  "process_pvp_attack g pos sess now now' p opponent =
     (if p_energy p < 20
      then Inr \<lparr>o_reply = NotEnoughEnergy, o_rows = (p, opponent), o_committed = False\<rparr>
      else
        let p1 = p\<lparr>p_energy := p_energy p - 20\<rparr> in
        case opponent of
          None \<Rightarrow> Inl AttributeError
        | Some opp \<Rightarrow>
            let s = pvp_final g pos sess now now' p1 opp;
                victory = bs_player_hp s > 0
            in if victory then
                 let p2 = p1\<lparr>p_wins := p_wins p1 + 1\<rparr>;
                     opp2 = opp\<lparr>p_losses := p_losses opp + 1\<rparr>;
                     rating_diff =
                       calculate_rating_change (p_pvp_rating p2) (p_pvp_rating opp2) True;
                     p3 = p2\<lparr>p_pvp_rating := p_pvp_rating p2 + rating_diff\<rparr>;
                     opp3 = opp2\<lparr>p_pvp_rating := p_pvp_rating opp2 - rating_diff\<rparr>
                 in case random_randint g (bs_rng_pos s) 50 100 of
                      Inl e \<Rightarrow> Inl e
                    | Inr reward_batons \<Rightarrow>
                        (case random_randint g (bs_rng_pos s + 1) 100 200 of
                           Inl e \<Rightarrow> Inl e
                         | Inr reward_exp \<Rightarrow>
                             (case add_experience
                                     (p3\<lparr>p_batons := p_batons p3 + reward_batons\<rparr>) reward_exp of
                                Inl (e, p4) \<Rightarrow> Inl e
                              | Inr (p4, level_up) \<Rightarrow>
                                  Inr \<lparr>o_reply = PvpVictory, o_rows = (p4, Some opp3),
                                       o_committed = True\<rparr>))
               else
                 let p2 = p1\<lparr>p_losses := p_losses p1 + 1\<rparr>;
                     opp2 = opp\<lparr>p_wins := p_wins opp + 1\<rparr>;
                     rating_diff =
                       calculate_rating_change (p_pvp_rating p2) (p_pvp_rating opp2) False;
                     p3 = p2\<lparr>p_pvp_rating := p_pvp_rating p2 - rating_diff\<rparr>;
                     opp3 = opp2\<lparr>p_pvp_rating := p_pvp_rating opp2 + rating_diff\<rparr>
                 in Inr \<lparr>o_reply = PvpDefeat, o_rows = (p3, Some opp3), o_committed = True\<rparr>)"

subsection \<open>Crafting\<close>

record recipe =
  r_result_item_id :: int
  r_result_quantity :: int
  r_energy_cost :: int
  r_materials :: "(int \<times> int) list"
  r_experience :: int

text \<open>The \<open>Inventory\<close> rows of the player, each an item id with a quantity, in the order
  in which the query returns them.\<close>

type_synonym inventory = "(int \<times> int) list"

text \<open>\<open>filter_by(item_id=...).first()\<close>, and the change and the deletion of that row.\<close>

definition first_row :: "int \<Rightarrow> inventory \<Rightarrow> (int \<times> int) option" where
  "first_row item_id inventory = find (\<lambda>row. fst row = item_id) inventory"

fun set_quantity :: "int \<Rightarrow> int \<Rightarrow> inventory \<Rightarrow> inventory" where
  "set_quantity item_id q [] = []"
| "set_quantity item_id q (row # rows) =
     (if fst row = item_id then (item_id, q) # rows else row # set_quantity item_id q rows)"

fun delete_row :: "int \<Rightarrow> inventory \<Rightarrow> inventory" where
  "delete_row item_id [] = []"
| "delete_row item_id (row # rows) =
     (if fst row = item_id then rows else row # delete_row item_id rows)"

text \<open>
  The loop of \<open>create_item\<close> over \<open>recipe.materials\<close>: every material is checked and
  taken in the same iteration. \<open>Inl\<close> is the early return, with the rows as the session
  holds them at that moment.
\<close>

fun consume_materials :: "(int \<times> int) list \<Rightarrow> inventory \<Rightarrow> inventory + inventory" where
  "consume_materials [] inventory = Inr inventory"
| "consume_materials ((material_id, required_qty) # materials) inventory =
     (case first_row material_id inventory of
        None \<Rightarrow> Inl inventory
      | Some inventory_item \<Rightarrow>
          if snd inventory_item < required_qty then Inl inventory
          else
            let quantity = snd inventory_item - required_qty
            in consume_materials materials
                 (if quantity = 0 then delete_row material_id inventory
                  else set_quantity material_id quantity inventory))"

text \<open>
  \<open>get_next_crafting_level_exp\<close> is called in \<open>create_item\<close>, but no module of the
  repository defines or imports the name: the call raises \<open>NameError\<close>.
\<close>

definition get_next_crafting_level_exp :: "int \<Rightarrow> error + int" where
  "get_next_crafting_level_exp crafting_level = Inl NameError"

text \<open>The loop that raises the crafting level.\<close>

function crafting_level_loop :: "int \<Rightarrow> int \<Rightarrow> error + int" where
  "crafting_level_loop crafting_experience crafting_level =
     (case get_next_crafting_level_exp crafting_level of
        Inl e \<Rightarrow> Inl e
      | Inr t \<Rightarrow>
          if crafting_experience \<ge> t
          then crafting_level_loop crafting_experience (crafting_level + 1)
          else Inr crafting_level)"
  by pat_completeness auto
termination
  by (relation "{}") (simp_all add: get_next_crafting_level_exp_def)

declare crafting_level_loop.simps [simp del]

text \<open>\<open>create_item\<close>. The recipe is the row found for the id in the callback data, if any.\<close>

definition create_item ::
  "recipe option \<Rightarrow> player \<Rightarrow> inventory \<Rightarrow> error + (player \<times> inventory) outcome" where
  "create_item recipe p inventory =
     (case recipe of
        None \<Rightarrow> Inl AttributeError
      | Some rc \<Rightarrow>
          if p_energy p < r_energy_cost rc
          then Inr \<lparr>o_reply = NotEnoughEnergy, o_rows = (p, inventory), o_committed = False\<rparr>
          else
            case consume_materials (r_materials rc) inventory of
              Inl inventory' \<Rightarrow>
                Inr \<lparr>o_reply = NotEnoughMaterials, o_rows = (p, inventory'),
                     o_committed = False\<rparr>
            | Inr inventory' \<Rightarrow>
                let inventory'' =
                      (case first_row (r_result_item_id rc) inventory' of
                         Some existing_item \<Rightarrow>
                           set_quantity (r_result_item_id rc)
                             (snd existing_item + r_result_quantity rc) inventory'
                       | None \<Rightarrow> inventory' @ [(r_result_item_id rc, r_result_quantity rc)]);
                    p1 = p\<lparr>p_energy := p_energy p - r_energy_cost rc,
                           p_crafting_experience := p_crafting_experience p + r_experience rc\<rparr>
                in case crafting_level_loop (p_crafting_experience p1) (p_crafting_level p1) of
                     Inl e \<Rightarrow> Inl e
                   | Inr level \<Rightarrow>
                       Inr \<lparr>o_reply = ItemCreated,
                            o_rows = (p1\<lparr>p_crafting_level := level\<rparr>, inventory''),
                            o_committed = True\<rparr>)"

subsection \<open>Entering a dungeon\<close>

record dungeon =
  d_name :: string
  d_min_level :: int
  d_energy_cost :: int
  d_cooldown :: int
  d_completion_time :: int

record current_progress =
  cp_current_room :: int
  cp_monsters_defeated :: int
  cp_hp_remaining :: int
  cp_start_time :: time

record dungeon_progress =
  dp_player_id :: int
  dp_dungeon_id :: int
  dp_completed_times :: int
  dp_best_time :: "int option"
  dp_last_attempt :: "time option"
  dp_current_progress :: "current_progress option"

text \<open>
  \<open>process_dungeon_selection\<close>. \<open>dungeon\<close> and \<open>progress\<close> are the rows the two queries
  return, if any. The clock is read for the cooldown check (\<open>now\<close>), for \<open>last_attempt\<close>
  (\<open>now'\<close>) and for \<open>start_time\<close> (\<open>now''\<close>); \<open>dungeon.cooldown\<close> counts hours.
\<close>

definition process_dungeon_selection ::
  "time \<Rightarrow> time \<Rightarrow> time \<Rightarrow> int \<Rightarrow> dungeon option \<Rightarrow> player \<Rightarrow> dungeon_progress option
     \<Rightarrow> error + (player \<times> dungeon_progress option) outcome" where
  "process_dungeon_selection now now' now'' dungeon_id dungeon p progress =
     (case dungeon of
        None \<Rightarrow> Inr \<lparr>o_reply = DungeonNotFound, o_rows = (p, progress), o_committed = False\<rparr>
      | Some d \<Rightarrow>
          if (case progress of
                None \<Rightarrow> False
              | Some pr \<Rightarrow>
                  (case dp_last_attempt pr of
                     None \<Rightarrow> False
                   | Some last_attempt \<Rightarrow> now < last_attempt + 3600 * of_int (d_cooldown d)))
          then Inr \<lparr>o_reply = DungeonOnCooldown, o_rows = (p, progress), o_committed = False\<rparr>
          else if p_energy p < d_energy_cost d
          then Inr \<lparr>o_reply = NotEnoughEnergy, o_rows = (p, progress), o_committed = False\<rparr>
          else
            let p1 = p\<lparr>p_energy := p_energy p - d_energy_cost d\<rparr>;
                pr = (case progress of
                        None \<Rightarrow>
                          \<lparr>dp_player_id = p_id p, dp_dungeon_id = dungeon_id,
                           dp_completed_times = 0, dp_best_time = None,
                           dp_last_attempt = None, dp_current_progress = None\<rparr>
                      | Some pr \<Rightarrow> pr);
                pr1 = pr\<lparr>dp_last_attempt := Some now',
                         dp_current_progress :=
                           Some \<lparr>cp_current_room = 0, cp_monsters_defeated = 0,
                                 cp_hp_remaining = p_health p1, cp_start_time = now''\<rparr>\<rparr>
            in Inr \<lparr>o_reply = DungeonEntered, o_rows = (p1, Some pr1), o_committed = True\<rparr>)"

subsection \<open>Rewards for a monster\<close>

record rewards =
  rw_experience :: int
  rw_batons :: int
  rw_level_up :: bool
  rw_dropped_items :: "string list"

text \<open>
  The loop of \<open>process_battle_rewards\<close> over the drop table: one call of
  \<open>random.random()\<close> for each entry, a new \<open>Inventory\<close> row with quantity 1 for each item
  that drops and is in the item table. It returns the new rows, the names of the dropped
  items and the position of the generator.
\<close>

fun drop_loop ::
  "rng \<Rightarrow> (int \<rightharpoonup> item) \<Rightarrow> nat \<Rightarrow> (int \<times> rat) list \<Rightarrow> inventory \<times> string list \<times> nat" where
  "drop_loop g items pos [] = ([], [], pos)"
| "drop_loop g items pos ((item_id, chance) # table) =
     (let (rows, dropped_items, pos') = drop_loop g items (pos + 1) table
      in if random_random g pos < chance
         then (case items item_id of
                 None \<Rightarrow> (rows, dropped_items, pos')
               | Some it \<Rightarrow> ((item_id, 1) # rows, it_name it # dropped_items, pos'))
         else (rows, dropped_items, pos'))"

text \<open>\<open>process_battle_rewards\<close>: the returned dictionary, the player, the inventory with
  the rows added to the session, and the position of the generator.\<close>

definition process_battle_rewards ::
  "rng \<Rightarrow> nat \<Rightarrow> (int \<rightharpoonup> item) \<Rightarrow> player \<Rightarrow> monster \<Rightarrow> inventory
     \<Rightarrow> error + (rewards \<times> player \<times> inventory \<times> nat)" where
  "process_battle_rewards g pos items p mon inventory =
     (let exp_reward = m_experience_reward mon in
      case random_randint g pos (m_baton_reward_min mon) (m_baton_reward_max mon) of
        Inl e \<Rightarrow> Inl e
      | Inr baton_reward \<Rightarrow>
          (case add_experience p exp_reward of
             Inl (e, p1) \<Rightarrow> Inl e
           | Inr (p1, level_up) \<Rightarrow>
               let p2 = p1\<lparr>p_batons := p_batons p1 + baton_reward\<rparr>;
                   (rows, dropped_items, pos') = drop_loop g items (pos + 1) (m_drop_table mon)
               in Inr (\<lparr>rw_experience = exp_reward, rw_batons = baton_reward,
                        rw_level_up = level_up, rw_dropped_items = dropped_items\<rparr>,
                       p2, inventory @ rows, pos')))"

section \<open>The round of the specification\<close>

text \<open>
  The amount of a hit as the three loops compute it: \<open>max(1, damage - defense // 2)\<close>,
  doubled on a critical hit.
\<close>

definition hit_damage :: "rat \<Rightarrow> rat \<Rightarrow> bool \<Rightarrow> rat" where
  "hit_damage damage defense critical =
     (let hit = max 1 (damage - of_int \<lfloor>defense / 2\<rfloor>)
      in if critical then 2 * hit else hit)"

text \<open>
  The amount of a hit in the words of the specification: \<open>max(1, damage - defense/2)\<close>,
  doubled on a critical hit.
\<close>

definition spec_hit_damage :: "rat \<Rightarrow> rat \<Rightarrow> bool \<Rightarrow> rat" where
  "spec_hit_damage damage defense critical =
     (let hit = max 1 (damage - defense / 2)
      in if critical then 2 * hit else hit)"


text \<open>A monster whose defense is far above the damage of a new player, and the first
  state of a battle of 100 against 50 health.\<close>

definition armoured_monster :: monster where
  "armoured_monster =
     \<lparr>m_name = ''golem'', m_health = 50, m_damage = 3, m_defense = 1000001,
      m_experience_reward = 10, m_baton_reward_min = 1, m_baton_reward_max = 5,
      m_drop_table = []\<rparr>"

definition first_state :: battle_state where
  "first_state = \<lparr>bs_player_hp = 100, bs_monster_hp = 50, bs_rounds = 0,
                  bs_battle_log = [], bs_rng_pos = 0\<rparr>"



text \<open>A session without items, equipment or buffs, and two monsters for the examples.\<close>

definition empty_session :: session where
  "empty_session = \<lparr>s_items = Map.empty, s_equipment = Map.empty, s_buffs = []\<rparr>"

definition weak_monster :: monster where
  "weak_monster =
     \<lparr>m_name = ''rat'', m_health = 50, m_damage = 10, m_defense = 0,
      m_experience_reward = 10, m_baton_reward_min = 1, m_baton_reward_max = 5,
      m_drop_table = []\<rparr>"

definition sturdy_monster :: monster where
  "sturdy_monster =
     \<lparr>m_name = ''giant'', m_health = 100000, m_damage = 8, m_defense = 0,
      m_experience_reward = 10, m_baton_reward_min = 1, m_baton_reward_max = 5,
      m_drop_table = []\<rparr>"


text \<open>
  The guard of the specification for entering a dungeon, \<open>now \<ge> last_attempt + cooldown\<close>;
  a player without an earlier attempt has no cooldown to wait for.
\<close>

definition cooldown_expired :: "time \<Rightarrow> dungeon \<Rightarrow> dungeon_progress option \<Rightarrow> bool" where
  "cooldown_expired now d progress =
     (case progress of
        None \<Rightarrow> True
      | Some pr \<Rightarrow>
          (case dp_last_attempt pr of
             None \<Rightarrow> True
           | Some last_attempt \<Rightarrow> now \<ge> last_attempt + 3600 * of_int (d_cooldown d)))"

text \<open>A dungeon, a progress row and a recipe for the examples.\<close>

definition crypt :: dungeon where
  "crypt = \<lparr>d_name = ''crypt'', d_min_level = 1, d_energy_cost = 30, d_cooldown = 2,
            d_completion_time = 15\<rparr>"

definition earlier_run :: dungeon_progress where
  "earlier_run =
     \<lparr>dp_player_id = 7, dp_dungeon_id = 3, dp_completed_times = 1, dp_best_time = Some 500,
      dp_last_attempt = Some 1000,
      dp_current_progress =
        Some \<lparr>cp_current_room = 2, cp_monsters_defeated = 5, cp_hp_remaining = 40,
              cp_start_time = 1000\<rparr>\<rparr>"

definition two_material_recipe :: recipe where
  "two_material_recipe =
     \<lparr>r_result_item_id = 9, r_result_quantity = 1, r_energy_cost = 10,
      r_materials = [(1, 1), (2, 1)], r_experience = 5\<rparr>"

text \<open>A player with little energy, for the examples.\<close>

definition tired_player :: player where
  "tired_player = (new_player 7 ''hero'')\<lparr>p_energy := 5\<rparr>"

text \<open>A second item and a monster with a drop table, for the examples.\<close>

definition shield :: item where
  "shield = \<lparr>it_name = ''shield'', it_strength_bonus = 0, it_agility_bonus = 0,
             it_intelligence_bonus = 0, it_vitality_bonus = 2, it_health_bonus = 10,
             it_energy_bonus = 0, it_damage_bonus = 0, it_defense_bonus = 4\<rparr>"

definition dropping_monster :: monster where
  "dropping_monster =
     \<lparr>m_name = ''bandit'', m_health = 50, m_damage = 10, m_defense = 0,
      m_experience_reward = 10, m_baton_reward_min = 1, m_baton_reward_max = 5,
      m_drop_table = [(1, 1), (2, 0), (3, 1)]\<rparr>"

section \<open>Auxiliary facts\<close>

lemma foldl_apply_slot:
  "foldl (apply_slot items) t slots =
     t\<lparr>ts_strength := ts_strength t + item_sum it_strength_bonus (List.map_filter (slot_item items) slots),
       ts_agility := ts_agility t + item_sum it_agility_bonus (List.map_filter (slot_item items) slots),
       ts_intelligence := ts_intelligence t + item_sum it_intelligence_bonus (List.map_filter (slot_item items) slots),
       ts_vitality := ts_vitality t + item_sum it_vitality_bonus (List.map_filter (slot_item items) slots),
       ts_health := ts_health t + item_sum it_health_bonus (List.map_filter (slot_item items) slots),
       ts_energy := ts_energy t + item_sum it_energy_bonus (List.map_filter (slot_item items) slots),
       ts_damage := ts_damage t + item_sum it_damage_bonus (List.map_filter (slot_item items) slots),
       ts_defense := ts_defense t + item_sum it_defense_bonus (List.map_filter (slot_item items) slots)\<rparr>"
proof (induction slots arbitrary: t)
  case Nil
  then show ?case by (simp add: item_sum_def List.map_filter_simps)
next
  case (Cons s slots)
  show ?case
  proof (cases "slot_item items s")
    case None
    then show ?thesis using Cons.IH [of t]
      by (simp add: apply_slot_def List.map_filter_simps)
  next
    case (Some it)
    then show ?thesis using Cons.IH [of "add_item_bonuses t it"]
      by (simp add: apply_slot_def List.map_filter_simps add_item_bonuses_def item_sum_def
            algebra_simps)
  qed
qed

lemma foldl_apply_buff_stat:
  "foldl apply_buff_stat t es =
     t\<lparr>ts_strength := ts_strength t + named_sum ''strength'' es,
       ts_agility := ts_agility t + named_sum ''agility'' es,
       ts_intelligence := ts_intelligence t + named_sum ''intelligence'' es,
       ts_vitality := ts_vitality t + named_sum ''vitality'' es,
       ts_health := ts_health t + named_sum ''health'' es,
       ts_energy := ts_energy t + named_sum ''energy'' es,
       ts_damage := ts_damage t + named_sum ''damage'' es,
       ts_defense := ts_defense t + named_sum ''defense'' es,
       ts_critical_chance := ts_critical_chance t + named_sum ''critical_chance'' es,
       ts_dodge_chance := ts_dodge_chance t + named_sum ''dodge_chance'' es\<rparr>"
proof (induction es arbitrary: t)
  case Nil
  then show ?case by (simp add: named_sum_def)
next
  case (Cons e es)
  show ?case
    unfolding foldl_Cons Cons.IH
    by (simp add: apply_buff_stat_def named_sum_def Let_def)
qed

lemma named_sum_append: "named_sum s (xs @ ys) = named_sum s xs + named_sum s ys"
  by (simp add: named_sum_def)

lemma foldl_apply_buff:
  "foldl apply_buff t bs =
     t\<lparr>ts_strength := ts_strength t + named_sum ''strength'' (concat (map b_stat_bonuses bs)),
       ts_agility := ts_agility t + named_sum ''agility'' (concat (map b_stat_bonuses bs)),
       ts_intelligence := ts_intelligence t + named_sum ''intelligence'' (concat (map b_stat_bonuses bs)),
       ts_vitality := ts_vitality t + named_sum ''vitality'' (concat (map b_stat_bonuses bs)),
       ts_health := ts_health t + named_sum ''health'' (concat (map b_stat_bonuses bs)),
       ts_energy := ts_energy t + named_sum ''energy'' (concat (map b_stat_bonuses bs)),
       ts_damage := ts_damage t + named_sum ''damage'' (concat (map b_stat_bonuses bs)),
       ts_defense := ts_defense t + named_sum ''defense'' (concat (map b_stat_bonuses bs)),
       ts_critical_chance := ts_critical_chance t + named_sum ''critical_chance'' (concat (map b_stat_bonuses bs)),
       ts_dodge_chance := ts_dodge_chance t + named_sum ''dodge_chance'' (concat (map b_stat_bonuses bs))\<rparr>"
proof (induction bs arbitrary: t)
  case Nil
  then show ?case by (simp add: named_sum_def)
next
  case (Cons b bs)
  show ?case
    unfolding foldl_Cons Cons.IH
    by (simp add: apply_buff_def foldl_apply_buff_stat named_sum_append algebra_simps)
qed


lemma random_random_less_1: "random_random g i < 1"
proof -
  have "g i mod 2 ^ 53 < 2 ^ 53" by simp
  then have "(of_nat (g i mod 2 ^ 53) :: rat) < of_nat (2 ^ 53)"
    by (simp only: of_nat_less_iff)
  then show ?thesis by (simp add: random_random_def)
qed

lemma hit_damage_ge_1: "1 \<le> hit_damage damage defense critical"
  by (simp add: hit_damage_def Let_def max_def)

lemma floor_rat_numeral_div [simp]:
  "\<lfloor>(numeral a :: rat) / numeral b\<rfloor> = numeral a div numeral b"
  using floor_divide_of_int_eq [of "numeral a" "numeral b", where ?'a = rat] by simp

lemma floor_half_of_int: "\<lfloor>(of_int n :: rat) / 2\<rfloor> = n div 2"
  using floor_divide_of_int_eq [of n 2, where ?'a = rat] by simp

lemma player_turn_hp:
  "bs_monster_hp (player_turn g name st mon s) =
     bs_monster_hp s - hit_damage (ts_damage st) (of_int (m_defense mon))
       (random_random g (bs_rng_pos s) < ts_critical_chance st / 100)"
  "bs_player_hp (player_turn g name st mon s) = bs_player_hp s"
  by (simp_all add: player_turn_def hit_damage_def Let_def floor_half_of_int)

lemma monster_turn_hp:
  "bs_player_hp (monster_turn g name st mon s) =
     (if bs_monster_hp s > 0 \<and> \<not> random_random g (bs_rng_pos s) < ts_dodge_chance st / 100
      then bs_player_hp s - hit_damage (of_int (m_damage mon)) (ts_defense st) False
      else bs_player_hp s)"
  "bs_monster_hp (monster_turn g name st mon s) = bs_monster_hp s"
  by (simp_all add: monster_turn_def hit_damage_def Let_def)

lemma pvp_player_turn_hp:
  "bs_monster_hp (pvp_player_turn g name oname st ost s) =
     (if random_random g (bs_rng_pos s + 1) < ts_dodge_chance ost / 100 then bs_monster_hp s
      else bs_monster_hp s - hit_damage (ts_damage st) (ts_defense ost)
             (random_random g (bs_rng_pos s) < ts_critical_chance st / 100))"
  "bs_player_hp (pvp_player_turn g name oname st ost s) = bs_player_hp s"
  by (simp_all add: pvp_player_turn_def hit_damage_def Let_def)

lemma pvp_opponent_turn_hp:
  "bs_player_hp (pvp_opponent_turn g name oname st ost s) =
     (if bs_monster_hp s > 0 \<and> \<not> random_random g (bs_rng_pos s + 1) < ts_dodge_chance st / 100
      then bs_player_hp s - hit_damage (ts_damage ost) (ts_defense st)
             (random_random g (bs_rng_pos s) < ts_critical_chance ost / 100)
      else bs_player_hp s)"
  "bs_monster_hp (pvp_opponent_turn g name oname st ost s) = bs_monster_hp s"
  by (simp_all add: pvp_opponent_turn_def hit_damage_def Let_def)

lemma dungeon_player_turn_hp:
  "ds_monster_hp (dungeon_player_turn g name st mon s) =
     ds_monster_hp s - hit_damage (ts_damage st) (of_int (m_defense mon))
       (random_random g (ds_rng_pos s) < ts_critical_chance st / 100)"
  "ds_player_hp (dungeon_player_turn g name st mon s) = ds_player_hp s"
  "ds_player_max_hp (dungeon_player_turn g name st mon s) = ds_player_max_hp s"
  by (simp_all add: dungeon_player_turn_def hit_damage_def Let_def floor_half_of_int)

lemma dungeon_monster_turn_hp:
  "ds_player_hp (dungeon_monster_turn g name st mon s) =
     (if ds_monster_hp s > 0 \<and> \<not> random_random g (ds_rng_pos s) < ts_dodge_chance st / 100
      then ds_player_hp s - hit_damage (of_int (m_damage mon)) (ts_defense st) False
      else ds_player_hp s)"
  "ds_monster_hp (dungeon_monster_turn g name st mon s) = ds_monster_hp s"
  "ds_player_max_hp (dungeon_monster_turn g name st mon s) = ds_player_max_hp s"
  by (simp_all add: dungeon_monster_turn_def hit_damage_def Let_def)







lemma battle_loop_step:
  "bs_player_hp s > 0 \<and> bs_monster_hp s > 0 \<and> bs_rounds s < 20 \<Longrightarrow>
   battle_loop g name st mon s = battle_loop g name st mon (battle_round g name st mon s)"
  by (subst battle_loop.simps) (erule if_P)

lemma battle_loop_stop:
  "\<not> (bs_player_hp s > 0 \<and> bs_monster_hp s > 0 \<and> bs_rounds s < 20) \<Longrightarrow>
   battle_loop g name st mon s = s"
  by (subst battle_loop.simps) (erule if_not_P)

lemma pvp_loop_step:
  "bs_player_hp s > 0 \<and> bs_monster_hp s > 0 \<and> bs_rounds s < 20 \<Longrightarrow>
   pvp_loop g name oname st ost s
     = pvp_loop g name oname st ost (pvp_round g name oname st ost s)"
  by (subst pvp_loop.simps) (erule if_P)

lemma pvp_loop_stop:
  "\<not> (bs_player_hp s > 0 \<and> bs_monster_hp s > 0 \<and> bs_rounds s < 20) \<Longrightarrow>
   pvp_loop g name oname st ost s = s"
  by (subst pvp_loop.simps) (erule if_not_P)



text \<open>When a loop ends with both sides alive, it has run its twenty rounds.\<close>

lemma battle_loop_exit:
  "bs_rounds s \<le> 20 \<Longrightarrow>
   bs_rounds (battle_loop g name st mon s) \<le> 20
   \<and> (0 < bs_player_hp (battle_loop g name st mon s)
        \<and> 0 < bs_monster_hp (battle_loop g name st mon s)
      \<longrightarrow> bs_rounds (battle_loop g name st mon s) = 20)"
proof (induction g name st mon s rule: battle_loop.induct)
  case (1 g name st mon s)
  show ?case
  proof (cases "bs_player_hp s > 0 \<and> bs_monster_hp s > 0 \<and> bs_rounds s < 20")
    case True
    then have "battle_loop g name st mon s = battle_loop g name st mon (battle_round g name st mon s)"
      by (rule battle_loop_step)
    moreover have "bs_rounds (battle_round g name st mon s) \<le> 20" using True by simp
    ultimately show ?thesis using "1.IH" [OF True] by simp
  next
    case False
    then have "battle_loop g name st mon s = s"
      by (rule battle_loop_stop)
    with "1.prems" False show ?thesis by auto
  qed
qed

lemma pvp_loop_exit:
  "bs_rounds s \<le> 20 \<Longrightarrow>
   bs_rounds (pvp_loop g name oname st ost s) \<le> 20
   \<and> (0 < bs_player_hp (pvp_loop g name oname st ost s)
        \<and> 0 < bs_monster_hp (pvp_loop g name oname st ost s)
      \<longrightarrow> bs_rounds (pvp_loop g name oname st ost s) = 20)"
proof (induction g name oname st ost s rule: pvp_loop.induct)
  case (1 g name oname st ost s)
  show ?case
  proof (cases "bs_player_hp s > 0 \<and> bs_monster_hp s > 0 \<and> bs_rounds s < 20")
    case True
    then have "pvp_loop g name oname st ost s
        = pvp_loop g name oname st ost (pvp_round g name oname st ost s)"
      by (rule pvp_loop_step)
    moreover have "bs_rounds (pvp_round g name oname st ost s) \<le> 20" using True by simp
    ultimately show ?thesis using "1.IH" [OF True] by simp
  next
    case False
    then have "pvp_loop g name oname st ost s = s"
      by (rule pvp_loop_stop)
    with "1.prems" False show ?thesis by auto
  qed
qed






lemma dungeon_loop_step:
  "ds_player_hp s > 0 \<and> ds_monster_hp s > 0 \<and> ds_rounds s < 20 \<Longrightarrow>
   dungeon_loop g name pet_effect st mon s
     = dungeon_loop g name pet_effect st mon (dungeon_round g name pet_effect st mon s)"
  by (subst dungeon_loop.simps) (erule if_P)

lemma dungeon_loop_stop:
  "\<not> (ds_player_hp s > 0 \<and> ds_monster_hp s > 0 \<and> ds_rounds s < 20) \<Longrightarrow>
   dungeon_loop g name pet_effect st mon s = s"
  by (subst dungeon_loop.simps) (erule if_not_P)


lemma dungeon_loop_exit:
  "ds_rounds s \<le> 20 \<Longrightarrow>
   ds_rounds (dungeon_loop g name pet_effect st mon s) \<le> 20
   \<and> (0 < ds_player_hp (dungeon_loop g name pet_effect st mon s)
        \<and> 0 < ds_monster_hp (dungeon_loop g name pet_effect st mon s)
      \<longrightarrow> ds_rounds (dungeon_loop g name pet_effect st mon s) = 20)"
proof (induction g name pet_effect st mon s rule: dungeon_loop.induct)
  case (1 g name pet_effect st mon s)
  show ?case
  proof (cases "ds_player_hp s > 0 \<and> ds_monster_hp s > 0 \<and> ds_rounds s < 20")
    case True
    then have "dungeon_loop g name pet_effect st mon s
        = dungeon_loop g name pet_effect st mon (dungeon_round g name pet_effect st mon s)"
      by (rule dungeon_loop_step)
    moreover have "ds_rounds (dungeon_round g name pet_effect st mon s) \<le> 20" using True by simp
    ultimately show ?thesis using "1.IH" [OF True] by simp
  next
    case False
    then have "dungeon_loop g name pet_effect st mon s = s"
      by (rule dungeon_loop_stop)
    with "1.prems" False show ?thesis by auto
  qed
qed

lemma half_draw: "random_random (constant_rng 4503599627370496) i = 1 / 2"
  by (simp add: random_random_def constant_rng_def)

lemma new_player_stats:
  "player_total_stats empty_session now (new_player uid name) =
     \<lparr>ts_strength = 10, ts_agility = 10, ts_intelligence = 10, ts_vitality = 10,
      ts_health = 100, ts_energy = 100, ts_damage = 20, ts_defense = 15,
      ts_critical_chance = 5, ts_dodge_chance = 3\<rparr>"
  by (simp add: player_total_stats_def get_total_stats_def empty_session_def active_buffs_def
        apply_equipment_def initial_total_stats_def new_player_def)



lemma sturdy_final:
  "bs_player_hp (battle_final (constant_rng 4503599627370496) 0 empty_session 0
      (new_player 7 ''hero'') sturdy_monster) = 80
   \<and> bs_monster_hp (battle_final (constant_rng 4503599627370496) 0 empty_session 0
      (new_player 7 ''hero'') sturdy_monster) = 99600
   \<and> bs_rounds (battle_final (constant_rng 4503599627370496) 0 empty_session 0
      (new_player 7 ''hero'') sturdy_monster) = 20"
  unfolding battle_final_def new_player_stats
  by (simp add: battle_loop_step battle_loop_stop battle_round_def
        player_turn_def monster_turn_def Let_def half_draw sturdy_monster_def new_player_def)

lemma zero_draw: "random_random (constant_rng 0) i = 0"
  by (simp add: random_random_def constant_rng_def)




lemma pvp_final_zero:
  "bs_player_hp (pvp_final (constant_rng 0) 0 empty_session 0 0
      (new_player 7 ''hero'') (new_player 8 ''rival'')) = 100
   \<and> bs_monster_hp (pvp_final (constant_rng 0) 0 empty_session 0 0
      (new_player 7 ''hero'') (new_player 8 ''rival'')) = 100
   \<and> bs_rounds (pvp_final (constant_rng 0) 0 empty_session 0 0
      (new_player 7 ''hero'') (new_player 8 ''rival'')) = 20
   \<and> bs_rng_pos (pvp_final (constant_rng 0) 0 empty_session 0 0
      (new_player 7 ''hero'') (new_player 8 ''rival'')) = 80"
  unfolding pvp_final_def new_player_stats
  by (simp add: pvp_loop_step pvp_loop_stop pvp_round_def pvp_player_turn_def
        pvp_opponent_turn_def Let_def zero_draw new_player_def)

lemma armoured_final_zero:
  "bs_player_hp (battle_final (constant_rng 0) 0 empty_session 0
      (new_player 7 ''hero'') armoured_monster) = 100
   \<and> bs_monster_hp (battle_final (constant_rng 0) 0 empty_session 0
      (new_player 7 ''hero'') armoured_monster) = 10
   \<and> bs_rounds (battle_final (constant_rng 0) 0 empty_session 0
      (new_player 7 ''hero'') armoured_monster) = 20"
  unfolding battle_final_def new_player_stats
  by (simp add: battle_loop_step battle_loop_stop battle_round_def
        player_turn_def monster_turn_def Let_def zero_draw armoured_monster_def new_player_def)

lemma sturdy_dungeon_final:
  "ds_player_hp (dungeon_final (constant_rng 4503599627370496) 0 empty_session 0
      (new_player 7 ''hero'') None sturdy_monster) = 80
   \<and> ds_monster_hp (dungeon_final (constant_rng 4503599627370496) 0 empty_session 0
      (new_player 7 ''hero'') None sturdy_monster) = 99600
   \<and> ds_rounds (dungeon_final (constant_rng 4503599627370496) 0 empty_session 0
      (new_player 7 ''hero'') None sturdy_monster) = 20"
  unfolding dungeon_final_def dungeon_player_stats_def option.case new_player_stats
  by (simp add: dungeon_loop_step dungeon_loop_stop dungeon_round_def dungeon_player_turn_def
        dungeon_pet_turn_def dungeon_monster_turn_def
        Let_def half_draw sturdy_monster_def new_player_def)

lemma player_total_stats_energy:
  "player_total_stats sess now (p\<lparr>p_energy := e\<rparr>) = player_total_stats sess now p"
  by (simp add: player_total_stats_def get_total_stats_def initial_total_stats_def
        active_buffs_def)

lemma pvp_final_energy:
  "pvp_final g pos sess now now' (p\<lparr>p_energy := e\<rparr>) opp = pvp_final g pos sess now now' p opp"
  by (simp add: pvp_final_def player_total_stats_energy)

lemma add_experience_raises:
  "add_experience p amount = Inl (AttributeError, p\<lparr>p_experience := p_experience p + amount\<rparr>)"
  by (simp add: add_experience_def add_experience_loop.simps player_get_next_level_exp_def)

lemma crafting_level_loop_raises: "crafting_level_loop e l = Inl NameError"
  by (simp add: crafting_level_loop.simps get_next_crafting_level_exp_def)

lemma create_item_rejected:
  assumes "create_item recipe p inventory = Inr out" and "rejection (o_reply out)"
  shows "\<not> o_committed out \<and> fst (o_rows out) = p
       \<and> (o_reply out = NotEnoughEnergy \<longrightarrow> o_rows out = (p, inventory))"
proof (cases recipe)
  case None
  with assms show ?thesis by (simp add: create_item_def)
next
  case (Some rc)
  show ?thesis
  proof (cases "p_energy p < r_energy_cost rc")
    case True
    with assms Some show ?thesis by (auto simp: create_item_def)
  next
    case False
    show ?thesis
    proof (cases "consume_materials (r_materials rc) inventory")
      case (Inl inv')
      with assms Some False show ?thesis by (auto simp: create_item_def)
    next
      case (Inr inv')
      with assms Some False show ?thesis
        by (simp add: create_item_def Let_def crafting_level_loop_raises)
    qed
  qed
qed

lemma pvp_rejected:
  assumes "process_pvp_attack g pos sess now now' p opponent = Inr out"
    and "rejection (o_reply out)"
  shows "p_energy p < 20 \<and> \<not> o_committed out \<and> o_rows out = (p, opponent)"
proof (cases "p_energy p < 20")
  case True
  with assms show ?thesis by (auto simp: process_pvp_attack_def)
next
  case False
  show ?thesis
  proof (cases opponent)
    case None
    with assms False show ?thesis by (simp add: process_pvp_attack_def)
  next
    case (Some opp)
    with assms False show ?thesis
      by (auto simp: process_pvp_attack_def Let_def rejection_def add_experience_raises
          random_randint_def split: if_splits)
  qed
qed

lemma dungeon_rejected:
  assumes "process_dungeon_selection now now' now'' dungeon_id dungeon p progress = Inr out"
    and "rejection (o_reply out)"
  shows "\<not> o_committed out \<and> o_rows out = (p, progress)"
  using assms
  by (auto simp: process_dungeon_selection_def Let_def rejection_def
      split: option.splits if_splits)

section \<open>Progression ledger\<close>

text \<open>
  C8, at the code. The threshold of the pet and the helper of \<open>utils\<close> are the same
  expression \<open>int(100 * (level ** 1.5))\<close> and agree at every level, however the float
  power and the float product round. The player has no threshold to compare with them:
  \<open>Player\<close> lacks \<open>get_next_level_exp\<close>, so the call raises \<open>AttributeError\<close>. The
  function that the unexecuted \<open>def\<close> statement inside \<open>add_experience\<close> would create
  is the same expression again.
\<close>

theorem player_threshold_missing:
  "player_get_next_level_exp p = Inl AttributeError
   \<and> pet_get_next_level_exp pow_float mul_float level
       = calculate_exp_for_level pow_float mul_float level
   \<and> nested_get_next_level_exp pow_float mul_float level
       = pet_get_next_level_exp pow_float mul_float level"
  by (simp add: player_get_next_level_exp_def pet_get_next_level_exp_def
        calculate_exp_for_level_def nested_get_next_level_exp_def EXPERIENCE_MULTIPLIER_def)

text \<open>
  C4, at the code. \<open>add_experience\<close> adds the grant to the experience and then raises
  \<open>AttributeError\<close> at the first test of the loop: no level-up is applied, for any player
  and any grant.
\<close>

theorem add_experience_raises_attribute_error:
  "add_experience p amount
     = Inl (AttributeError, p\<lparr>p_experience := p_experience p + amount\<rparr>)
   \<and> add_experience (new_player 7 ''hero'') 100
     = Inl (AttributeError, (new_player 7 ''hero'')\<lparr>p_experience := 100\<rparr>)"
  by (simp add: add_experience_raises new_player_def)

section \<open>Stat aggregator\<close>

text \<open>
  C9. In the totals of \<open>get_total_stats\<close> the derived stats are computed from the
  player's own attributes: damage is twice the player's strength, defense one and a half
  times the vitality, the critical chance half the agility and the dodge chance three
  tenths of it. An equipped item adds its attribute bonuses to the attribute totals
  only; of an item, only \<open>damage_bonus\<close> and \<open>defense_bonus\<close> reach the derived totals,
  and of the active buffs only the entries named after a derived stat.
\<close>

theorem derived_stats_from_base_attributes:
  fixes p :: player and equip :: "equipment option" and items :: "int \<rightharpoonup> item"
    and buffs :: "player_buff list" and now :: time
  defines "t \<equiv> get_total_stats p equip items buffs now"
    and "its \<equiv> equipped_items items equip"
    and "es \<equiv> buff_entries p buffs now"
  shows "ts_damage t = of_int (p_strength p * 2) + item_sum it_damage_bonus its + named_sum ''damage'' es
       \<and> ts_defense t = of_int (p_vitality p) * (3 / 2) + item_sum it_defense_bonus its
            + named_sum ''defense'' es
       \<and> ts_critical_chance t = of_int (p_agility p) * (1 / 2) + named_sum ''critical_chance'' es
       \<and> ts_dodge_chance t = of_int (p_agility p) * (3 / 10) + named_sum ''dodge_chance'' es
       \<and> ts_strength t = of_int (p_strength p) + item_sum it_strength_bonus its
            + named_sum ''strength'' es
       \<and> ts_agility t = of_int (p_agility p) + item_sum it_agility_bonus its
            + named_sum ''agility'' es
       \<and> ts_intelligence t = of_int (p_intelligence p) + item_sum it_intelligence_bonus its
            + named_sum ''intelligence'' es
       \<and> ts_vitality t = of_int (p_vitality p) + item_sum it_vitality_bonus its
            + named_sum ''vitality'' es"
proof (cases equip)
  case None
  then show ?thesis
    unfolding t_def its_def es_def
    by (simp add: get_total_stats_def foldl_apply_buff apply_equipment_def
          equipped_items_def buff_entries_def initial_total_stats_def item_sum_def)
next
  case (Some eq)
  then show ?thesis
    unfolding t_def its_def es_def
    by (simp add: get_total_stats_def foldl_apply_buff apply_equipment_def foldl_apply_slot
          equipped_items_def buff_entries_def initial_total_stats_def)
qed

theorem derived_stats_from_base_attributes_witness:
  "(let t = get_total_stats (new_player 7 ''hero'')
              (Some \<lparr>weapon_id = Some 1, armor_id = None, helmet_id = None, boots_id = Some 0,
                     amulet_id = Some 9, ring_id = None\<rparr>)
              [1 \<mapsto> sword]
              [\<lparr>b_player_id = 7, b_stat_bonuses = [(''damage'', 2), (''strength'', 1), (''luck'', 9)],
                 b_expires_at = 50\<rparr>,
               \<lparr>b_player_id = 7, b_stat_bonuses = [(''defense'', 100)], b_expires_at = 10\<rparr>]
              10
    in ts_strength t = 16 \<and> ts_agility t = 12 \<and> ts_vitality t = 14
       \<and> ts_damage t = 25 \<and> ts_defense t = 16 \<and> ts_critical_chance t = 5
       \<and> ts_dodge_chance t = 3)"
  using derived_stats_from_base_attributes [of "new_player 7 ''hero''"
      "Some \<lparr>weapon_id = Some 1, armor_id = None, helmet_id = None, boots_id = Some 0,
                     amulet_id = Some 9, ring_id = None\<rparr>" "[1 \<mapsto> sword]"
      "[\<lparr>b_player_id = 7, b_stat_bonuses = [(''damage'', 2), (''strength'', 1), (''luck'', 9)],
                 b_expires_at = 50\<rparr>,
               \<lparr>b_player_id = 7, b_stat_bonuses = [(''defense'', 100)], b_expires_at = 10\<rparr>]" 10]
  by (simp add: Let_def new_player_def sword_def equipped_items_def equipment_slots_def
        List.map_filter_simps slot_item_def buff_entries_def active_buffs_def named_sum_def
        item_sum_def)

section \<open>Combat simulator\<close>

text \<open>
  C5, as the code has it. In the battle with a monster, in the dungeon battle and in the
  arena, every hit that lands takes \<open>max(1, damage - defense // 2)\<close> of the attacker's
  damage and the defender's defense from the defender's health, twice that on a critical
  hit: half the defense is rounded down. The amount is at least 1 whatever the defense
  is.
\<close>

theorem hit_damage_at_least_one:
  "1 \<le> hit_damage damage defense critical
   \<and> hit_damage damage defense critical =
       (if critical then 2 else 1) * max 1 (damage - of_int \<lfloor>defense / 2\<rfloor>)
   \<and> bs_monster_hp (player_turn g name st mon s) =
       bs_monster_hp s - hit_damage (ts_damage st) (of_int (m_defense mon))
         (random_random g (bs_rng_pos s) < ts_critical_chance st / 100)
   \<and> bs_player_hp (monster_turn g name st mon s) =
       (if bs_monster_hp s > 0 \<and> \<not> random_random g (bs_rng_pos s) < ts_dodge_chance st / 100
        then bs_player_hp s - hit_damage (of_int (m_damage mon)) (ts_defense st) False
        else bs_player_hp s)
   \<and> ds_monster_hp (dungeon_player_turn g name st mon d) =
       ds_monster_hp d - hit_damage (ts_damage st) (of_int (m_defense mon))
         (random_random g (ds_rng_pos d) < ts_critical_chance st / 100)
   \<and> ds_player_hp (dungeon_monster_turn g name st mon d) =
       (if ds_monster_hp d > 0 \<and> \<not> random_random g (ds_rng_pos d) < ts_dodge_chance st / 100
        then ds_player_hp d - hit_damage (of_int (m_damage mon)) (ts_defense st) False
        else ds_player_hp d)
   \<and> bs_monster_hp (pvp_player_turn g name oname st ost s) =
       (if random_random g (bs_rng_pos s + 1) < ts_dodge_chance ost / 100 then bs_monster_hp s
        else bs_monster_hp s - hit_damage (ts_damage st) (ts_defense ost)
               (random_random g (bs_rng_pos s) < ts_critical_chance st / 100))
   \<and> bs_player_hp (pvp_opponent_turn g name oname st ost s) =
       (if bs_monster_hp s > 0
           \<and> \<not> random_random g (bs_rng_pos s + 1) < ts_dodge_chance st / 100
        then bs_player_hp s - hit_damage (ts_damage ost) (ts_defense st)
               (random_random g (bs_rng_pos s) < ts_critical_chance ost / 100)
        else bs_player_hp s)"
proof (intro conjI)
  show "1 \<le> hit_damage damage defense critical"
    by (rule hit_damage_ge_1)
  show "hit_damage damage defense critical =
       (if critical then 2 else 1) * max 1 (damage - of_int \<lfloor>defense / 2\<rfloor>)"
    by (simp add: hit_damage_def Let_def)
qed (simp_all only: player_turn_hp monster_turn_hp pvp_player_turn_hp pvp_opponent_turn_hp
       dungeon_player_turn_hp dungeon_monster_turn_hp)

theorem hit_damage_at_least_one_witness:
  "bs_monster_hp (player_turn (constant_rng 0) ''hero'' (initial_total_stats (new_player 7 ''hero''))
      armoured_monster first_state) = 48
   \<and> bs_player_hp (monster_turn (constant_rng 4503599627370496) ''hero''
      (initial_total_stats (new_player 7 ''hero'')) armoured_monster first_state) = 99"
proof -
  have c: "random_random (constant_rng 0) 0 = 0"
    by (simp add: random_random_def constant_rng_def)
  have d: "random_random (constant_rng 4503599627370496) 0 = 1 / 2"
    by (simp add: random_random_def constant_rng_def)
  have h: "hit_damage 20 1000001 True = 2" "hit_damage 3 15 False = 1"
    by (simp_all add: hit_damage_def)
  from hit_damage_at_least_one [of 0 0 False "constant_rng 0" "''hero''"
      "initial_total_stats (new_player 7 ''hero'')" armoured_monster first_state]
  have "bs_monster_hp (player_turn (constant_rng 0) ''hero''
      (initial_total_stats (new_player 7 ''hero'')) armoured_monster first_state) = 48"
    using c h by (simp add: initial_total_stats_def new_player_def armoured_monster_def
        first_state_def)
  moreover
  from hit_damage_at_least_one [of 0 0 False "constant_rng 4503599627370496" "''hero''"
      "initial_total_stats (new_player 7 ''hero'')" armoured_monster first_state]
  have "bs_player_hp (monster_turn (constant_rng 4503599627370496) ''hero''
      (initial_total_stats (new_player 7 ''hero'')) armoured_monster first_state) = 99"
    using d h by (simp add: initial_total_stats_def new_player_def armoured_monster_def
        first_state_def)
  ultimately show ?thesis by simp
qed

text \<open>
  The claim fails for the formula with the exact half: a monster of damage 10 hits a new
  player, whose defense is 15, for 3, where \<open>max(1, damage - defense/2)\<close> is 5/2.
\<close>

theorem hit_damage_floors_half_defense:
  "bs_player_hp first_state
     - bs_player_hp (monster_turn (constant_rng 4503599627370496) ''hero''
         (initial_total_stats (new_player 7 ''hero'')) weak_monster first_state) = 3
   \<and> spec_hit_damage (of_int (m_damage weak_monster))
         (ts_defense (initial_total_stats (new_player 7 ''hero''))) False = 5 / 2"
  by (simp add: monster_turn_def half_draw initial_total_stats_def new_player_def
        weak_monster_def first_state_def spec_hit_damage_def Let_def)





section \<open>Outcome after twenty rounds\<close>

text \<open>
  C1, as the code has it. The result of a battle has no value for a draw: \<open>victory\<close> is
  \<open>player_hp > 0\<close>. When the loop of \<open>battle_calculation\<close> or of \<open>dungeon_battle\<close> ends
  with the health of both sides above zero, it has run its twenty rounds and the
  result reports a victory of the player. The loop of \<open>process_pvp_attack\<close> ends in the
  same way after twenty rounds, and the handler does not settle the battle as a defeat
  of the attacker.
\<close>

theorem full_length_battle_is_victory:
  "(0 < bs_player_hp (battle_final g pos sess now p mon)
      \<and> 0 < bs_monster_hp (battle_final g pos sess now p mon) \<longrightarrow>
        bs_rounds (battle_final g pos sess now p mon) = 20
        \<and> br_rounds (fst (battle_calculation g pos sess now p mon)) = 20
        \<and> br_victory (fst (battle_calculation g pos sess now p mon)))
   \<and> (0 < ds_player_hp (dungeon_final g pos sess now p pet_effect mon)
      \<and> 0 < ds_monster_hp (dungeon_final g pos sess now p pet_effect mon) \<longrightarrow>
        ds_rounds (dungeon_final g pos sess now p pet_effect mon) = 20
        \<and> br_rounds (fst (dungeon_battle g pos sess now p pet_effect mon)) = 20
        \<and> br_victory (fst (dungeon_battle g pos sess now p pet_effect mon)))
   \<and> (0 < bs_player_hp (pvp_final g pos sess now now' p opp)
      \<and> 0 < bs_monster_hp (pvp_final g pos sess now now' p opp) \<longrightarrow>
        bs_rounds (pvp_final g pos sess now now' p opp) = 20
        \<and> (\<forall>out. process_pvp_attack g pos sess now now' p (Some opp) = Inr out
              \<longrightarrow> o_reply out \<noteq> PvpDefeat))"
proof -
  have 1: "0 < bs_player_hp (battle_final g pos sess now p mon)
      \<and> 0 < bs_monster_hp (battle_final g pos sess now p mon) \<longrightarrow>
        bs_rounds (battle_final g pos sess now p mon) = 20
        \<and> br_rounds (fst (battle_calculation g pos sess now p mon)) = 20
        \<and> br_victory (fst (battle_calculation g pos sess now p mon))"
  proof
    assume a: "0 < bs_player_hp (battle_final g pos sess now p mon)
      \<and> 0 < bs_monster_hp (battle_final g pos sess now p mon)"
    have "bs_rounds (battle_final g pos sess now p mon) \<le> 20
      \<and> (0 < bs_player_hp (battle_final g pos sess now p mon)
          \<and> 0 < bs_monster_hp (battle_final g pos sess now p mon)
        \<longrightarrow> bs_rounds (battle_final g pos sess now p mon) = 20)"
      unfolding battle_final_def Let_def by (rule battle_loop_exit) simp
    with a have r: "bs_rounds (battle_final g pos sess now p mon) = 20" by simp
    with a show "bs_rounds (battle_final g pos sess now p mon) = 20
        \<and> br_rounds (fst (battle_calculation g pos sess now p mon)) = 20
        \<and> br_victory (fst (battle_calculation g pos sess now p mon))"
      by (simp add: battle_calculation_def Let_def)
  qed
  have 2: "0 < ds_player_hp (dungeon_final g pos sess now p pet_effect mon)
      \<and> 0 < ds_monster_hp (dungeon_final g pos sess now p pet_effect mon) \<longrightarrow>
        ds_rounds (dungeon_final g pos sess now p pet_effect mon) = 20
        \<and> br_rounds (fst (dungeon_battle g pos sess now p pet_effect mon)) = 20
        \<and> br_victory (fst (dungeon_battle g pos sess now p pet_effect mon))"
  proof
    assume a: "0 < ds_player_hp (dungeon_final g pos sess now p pet_effect mon)
      \<and> 0 < ds_monster_hp (dungeon_final g pos sess now p pet_effect mon)"
    have "ds_rounds (dungeon_final g pos sess now p pet_effect mon) \<le> 20
      \<and> (0 < ds_player_hp (dungeon_final g pos sess now p pet_effect mon)
          \<and> 0 < ds_monster_hp (dungeon_final g pos sess now p pet_effect mon)
        \<longrightarrow> ds_rounds (dungeon_final g pos sess now p pet_effect mon) = 20)"
      unfolding dungeon_final_def Let_def by (rule dungeon_loop_exit) simp
    with a have r: "ds_rounds (dungeon_final g pos sess now p pet_effect mon) = 20" by simp
    with a show "ds_rounds (dungeon_final g pos sess now p pet_effect mon) = 20
        \<and> br_rounds (fst (dungeon_battle g pos sess now p pet_effect mon)) = 20
        \<and> br_victory (fst (dungeon_battle g pos sess now p pet_effect mon))"
      by (simp add: dungeon_battle_def Let_def)
  qed
  have 3: "0 < bs_player_hp (pvp_final g pos sess now now' p opp)
      \<and> 0 < bs_monster_hp (pvp_final g pos sess now now' p opp) \<longrightarrow>
        bs_rounds (pvp_final g pos sess now now' p opp) = 20
        \<and> (\<forall>out. process_pvp_attack g pos sess now now' p (Some opp) = Inr out
              \<longrightarrow> o_reply out \<noteq> PvpDefeat)"
  proof
    assume a: "0 < bs_player_hp (pvp_final g pos sess now now' p opp)
      \<and> 0 < bs_monster_hp (pvp_final g pos sess now now' p opp)"
    have "bs_rounds (pvp_final g pos sess now now' p opp) \<le> 20
      \<and> (0 < bs_player_hp (pvp_final g pos sess now now' p opp)
          \<and> 0 < bs_monster_hp (pvp_final g pos sess now now' p opp)
        \<longrightarrow> bs_rounds (pvp_final g pos sess now now' p opp) = 20)"
      unfolding pvp_final_def Let_def by (rule pvp_loop_exit) simp
    with a have r: "bs_rounds (pvp_final g pos sess now now' p opp) = 20" by simp
    have "\<forall>out. process_pvp_attack g pos sess now now' p (Some opp) = Inr out
              \<longrightarrow> o_reply out \<noteq> PvpDefeat"
      using a
      by (auto simp: process_pvp_attack_def Let_def pvp_final_energy add_experience_raises
          random_randint_def split: if_splits)
    with r show "bs_rounds (pvp_final g pos sess now now' p opp) = 20
        \<and> (\<forall>out. process_pvp_attack g pos sess now now' p (Some opp) = Inr out
              \<longrightarrow> o_reply out \<noteq> PvpDefeat)"
      by simp
  qed
  from 1 2 3 show ?thesis by (intro conjI)
qed

theorem full_length_battle_is_victory_witness:
  "0 < bs_player_hp (battle_final (constant_rng 4503599627370496) 0 empty_session 0
        (new_player 7 ''hero'') sturdy_monster)
   \<and> 0 < bs_monster_hp (battle_final (constant_rng 4503599627370496) 0 empty_session 0
        (new_player 7 ''hero'') sturdy_monster)
   \<and> br_rounds (fst (battle_calculation (constant_rng 4503599627370496) 0 empty_session 0
        (new_player 7 ''hero'') sturdy_monster)) = 20
   \<and> br_victory (fst (battle_calculation (constant_rng 4503599627370496) 0 empty_session 0
        (new_player 7 ''hero'') sturdy_monster))
   \<and> 0 < ds_player_hp (dungeon_final (constant_rng 4503599627370496) 0 empty_session 0
        (new_player 7 ''hero'') None sturdy_monster)
   \<and> 0 < ds_monster_hp (dungeon_final (constant_rng 4503599627370496) 0 empty_session 0
        (new_player 7 ''hero'') None sturdy_monster)
   \<and> br_victory (fst (dungeon_battle (constant_rng 4503599627370496) 0 empty_session 0
        (new_player 7 ''hero'') None sturdy_monster))
   \<and> 0 < bs_player_hp (pvp_final (constant_rng 0) 0 empty_session 0 0
        (new_player 7 ''hero'') (new_player 8 ''rival''))
   \<and> 0 < bs_monster_hp (pvp_final (constant_rng 0) 0 empty_session 0 0
        (new_player 7 ''hero'') (new_player 8 ''rival''))
   \<and> bs_rounds (pvp_final (constant_rng 0) 0 empty_session 0 0
        (new_player 7 ''hero'') (new_player 8 ''rival'')) = 20"
proof -
  note t = full_length_battle_is_victory [where g = "constant_rng 4503599627370496"
      and pos = 0 and sess = empty_session and now = 0 and p = "new_player 7 ''hero''"
      and mon = sturdy_monster and pet_effect = None and now' = 0
      and opp = "new_player 8 ''rival''"]
  note u = full_length_battle_is_victory [where g = "constant_rng 0"
      and pos = 0 and sess = empty_session and now = 0 and p = "new_player 7 ''hero''"
      and mon = sturdy_monster and pet_effect = None and now' = 0
      and opp = "new_player 8 ''rival''"]
  from t [THEN conjunct1] sturdy_final
  have 1: "br_rounds (fst (battle_calculation (constant_rng 4503599627370496) 0 empty_session 0
        (new_player 7 ''hero'') sturdy_monster)) = 20
     \<and> br_victory (fst (battle_calculation (constant_rng 4503599627370496) 0 empty_session 0
        (new_player 7 ''hero'') sturdy_monster))" by simp
  from t [THEN conjunct2, THEN conjunct1] sturdy_dungeon_final
  have 2: "br_victory (fst (dungeon_battle (constant_rng 4503599627370496) 0 empty_session 0
        (new_player 7 ''hero'') None sturdy_monster))" by simp
  from u [THEN conjunct2, THEN conjunct2] pvp_final_zero
  have 3: "bs_rounds (pvp_final (constant_rng 0) 0 empty_session 0 0
        (new_player 7 ''hero'') (new_player 8 ''rival'')) = 20"
    by simp
  from 1 2 3 show ?thesis
    by (simp add: sturdy_final sturdy_dungeon_final pvp_final_zero)
qed

text \<open>
  The claim fails: a new player and a monster that survives twenty rounds, the player
  dodging every attack, end the battle with 100 and 10 health, and \<open>battle_calculation\<close>
  returns a victory of the player.
\<close>

theorem full_length_battle_not_a_draw:
  "bs_rounds (battle_final (constant_rng 0) 0 empty_session 0
        (new_player 7 ''hero'') armoured_monster) = 20
   \<and> bs_player_hp (battle_final (constant_rng 0) 0 empty_session 0
        (new_player 7 ''hero'') armoured_monster) = 100
   \<and> bs_monster_hp (battle_final (constant_rng 0) 0 empty_session 0
        (new_player 7 ''hero'') armoured_monster) = 10
   \<and> br_rounds (fst (battle_calculation (constant_rng 0) 0 empty_session 0
        (new_player 7 ''hero'') armoured_monster)) = 20
   \<and> br_victory (fst (battle_calculation (constant_rng 0) 0 empty_session 0
        (new_player 7 ''hero'') armoured_monster))"
  by (simp add: armoured_final_zero battle_calculation_def Let_def)

section \<open>Dungeon entry\<close>

text \<open>
  C6. \<open>process_dungeon_selection\<close> lets the player in exactly when the cooldown has expired
  and the energy covers \<open>dungeon.energy_cost\<close>. Entering takes exactly that energy, sets
  \<open>last_attempt\<close> and starts the progress at room 0 with no monster defeated, and is
  committed. An attempt before the cooldown has expired is answered with the cooldown
  message, commits nothing and leaves the player and the progress row, \<open>last_attempt\<close>
  included, as they were.
\<close>

theorem dungeon_entry_guarded:
  "\<exists>out. process_dungeon_selection now now' now'' dungeon_id (Some d) p progress = Inr out
     \<and> (o_reply out = DungeonEntered
          \<longleftrightarrow> cooldown_expired now d progress \<and> d_energy_cost d \<le> p_energy p)
     \<and> (o_reply out = DungeonEntered \<longrightarrow>
          o_committed out
          \<and> fst (o_rows out) = p\<lparr>p_energy := p_energy p - d_energy_cost d\<rparr>
          \<and> (\<exists>pr cp. snd (o_rows out) = Some pr \<and> dp_last_attempt pr = Some now'
                \<and> dp_current_progress pr = Some cp \<and> cp_current_room cp = 0
                \<and> cp_monsters_defeated cp = 0 \<and> cp_hp_remaining cp = p_health p
                \<and> cp_start_time cp = now''))
     \<and> (\<not> cooldown_expired now d progress \<longrightarrow>
          o_reply out = DungeonOnCooldown \<and> \<not> o_committed out \<and> o_rows out = (p, progress)
          \<and> persisted (p, progress) (Inr out) = (p, progress))
     \<and> (o_reply out \<noteq> DungeonEntered \<longrightarrow>
          \<not> o_committed out \<and> o_rows out = (p, progress)
          \<and> persisted (p, progress) (Inr out) = (p, progress))"
  by (cases progress)
     (auto simp: process_dungeon_selection_def cooldown_expired_def persisted_def Let_def
        split: option.splits)

theorem dungeon_entry_guarded_witness:
  "\<not> cooldown_expired 5000 crypt (Some earlier_run)
   \<and> process_dungeon_selection 5000 5001 5002 3 (Some crypt) (new_player 7 ''hero'')
        (Some earlier_run) =
       Inr \<lparr>o_reply = DungeonOnCooldown, o_rows = (new_player 7 ''hero'', Some earlier_run),
            o_committed = False\<rparr>
   \<and> cooldown_expired 8200 crypt (Some earlier_run)
   \<and> d_energy_cost crypt \<le> p_energy (new_player 7 ''hero'')
   \<and> process_dungeon_selection 8200 8201 8202 3 (Some crypt) (new_player 7 ''hero'')
        (Some earlier_run) =
       Inr \<lparr>o_reply = DungeonEntered,
            o_rows = ((new_player 7 ''hero'')\<lparr>p_energy := 70\<rparr>,
                      Some (earlier_run\<lparr>dp_last_attempt := Some 8201,
                              dp_current_progress :=
                                Some \<lparr>cp_current_room = 0, cp_monsters_defeated = 0,
                                      cp_hp_remaining = 100, cp_start_time = 8202\<rparr>\<rparr>)),
            o_committed = True\<rparr>"
proof -
  have a: "\<not> cooldown_expired 5000 crypt (Some earlier_run)"
    "cooldown_expired 8200 crypt (Some earlier_run)"
    "d_energy_cost crypt \<le> p_energy (new_player 7 ''hero'')"
    by (simp_all add: cooldown_expired_def crypt_def earlier_run_def new_player_def)
  from dungeon_entry_guarded [of 5000 5001 5002 3 crypt "new_player 7 ''hero''" "Some earlier_run"]
    a(1)
  obtain out where "process_dungeon_selection 5000 5001 5002 3 (Some crypt)
      (new_player 7 ''hero'') (Some earlier_run) = Inr out"
    "o_reply out = DungeonOnCooldown" "\<not> o_committed out"
    "o_rows out = (new_player 7 ''hero'', Some earlier_run)"
    by blast
  then have b: "process_dungeon_selection 5000 5001 5002 3 (Some crypt) (new_player 7 ''hero'')
        (Some earlier_run) =
       Inr \<lparr>o_reply = DungeonOnCooldown, o_rows = (new_player 7 ''hero'', Some earlier_run),
            o_committed = False\<rparr>"
    by (cases out) simp
  have c: "process_dungeon_selection 8200 8201 8202 3 (Some crypt) (new_player 7 ''hero'')
        (Some earlier_run) =
       Inr \<lparr>o_reply = DungeonEntered,
            o_rows = ((new_player 7 ''hero'')\<lparr>p_energy := 70\<rparr>,
                      Some (earlier_run\<lparr>dp_last_attempt := Some 8201,
                              dp_current_progress :=
                                Some \<lparr>cp_current_room = 0, cp_monsters_defeated = 0,
                                      cp_hp_remaining = 100, cp_start_time = 8202\<rparr>\<rparr>)),
            o_committed = True\<rparr>"
    by (simp add: process_dungeon_selection_def crypt_def earlier_run_def new_player_def)
  from a b c show ?thesis by simp
qed

section \<open>Rejected requests\<close>

text \<open>
  C3, as the code has it. A handler that turns a request down returns before
  \<open>session.commit()\<close>, so the rows in the database stay as they were loaded: player,
  inventory and dungeon progress. When the request fails the energy check, the cooldown
  check or the lookup of the dungeon, the rows held by the session are unchanged as well,
  and the player row is unchanged in every rejection. What the session holds of the
  inventory when \<open>create_item\<close> finds a material missing is not part of the statement.
\<close>

theorem rejection_commits_nothing:
  "(create_item recipe p inventory = Inr out \<and> rejection (o_reply out) \<longrightarrow>
      \<not> o_committed out \<and> fst (o_rows out) = p
      \<and> persisted (p, inventory) (Inr out) = (p, inventory)
      \<and> (o_reply out = NotEnoughEnergy \<longrightarrow> o_rows out = (p, inventory)))
   \<and> (p_energy p < r_energy_cost rc \<longrightarrow>
        create_item (Some rc) p inventory =
          Inr \<lparr>o_reply = NotEnoughEnergy, o_rows = (p, inventory), o_committed = False\<rparr>)
   \<and> (\<not> p_energy p < r_energy_cost rc
        \<and> consume_materials (r_materials rc) inventory = Inl inventory' \<longrightarrow>
        create_item (Some rc) p inventory =
          Inr \<lparr>o_reply = NotEnoughMaterials, o_rows = (p, inventory'),
               o_committed = False\<rparr>)
   \<and> (process_pvp_attack g pos sess now now' p opponent = Inr out_p
        \<and> rejection (o_reply out_p) \<longrightarrow>
        \<not> o_committed out_p \<and> o_rows out_p = (p, opponent)
        \<and> persisted (p, opponent) (Inr out_p) = (p, opponent))
   \<and> (p_energy p < 20 \<longrightarrow>
        process_pvp_attack g pos sess now now' p opponent =
          Inr \<lparr>o_reply = NotEnoughEnergy, o_rows = (p, opponent), o_committed = False\<rparr>)
   \<and> (process_dungeon_selection now now' now'' dungeon_id dungeon p progress = Inr out_d
        \<and> rejection (o_reply out_d) \<longrightarrow>
        \<not> o_committed out_d \<and> o_rows out_d = (p, progress)
        \<and> persisted (p, progress) (Inr out_d) = (p, progress))
   \<and> (p_energy p < d_energy_cost d \<and> cooldown_expired now d progress \<longrightarrow>
        process_dungeon_selection now now' now'' dungeon_id (Some d) p progress =
          Inr \<lparr>o_reply = NotEnoughEnergy, o_rows = (p, progress), o_committed = False\<rparr>)"
proof -
  have 1: "create_item recipe p inventory = Inr out \<and> rejection (o_reply out) \<longrightarrow>
      \<not> o_committed out \<and> fst (o_rows out) = p
      \<and> persisted (p, inventory) (Inr out) = (p, inventory)
      \<and> (o_reply out = NotEnoughEnergy \<longrightarrow> o_rows out = (p, inventory))"
    using create_item_rejected [of recipe p inventory out]
    by (auto simp: persisted_def)
  have 2: "p_energy p < r_energy_cost rc \<longrightarrow>
        create_item (Some rc) p inventory =
          Inr \<lparr>o_reply = NotEnoughEnergy, o_rows = (p, inventory), o_committed = False\<rparr>"
    by (simp add: create_item_def)
  have 3: "\<not> p_energy p < r_energy_cost rc
        \<and> consume_materials (r_materials rc) inventory = Inl inventory' \<longrightarrow>
        create_item (Some rc) p inventory =
          Inr \<lparr>o_reply = NotEnoughMaterials, o_rows = (p, inventory'),
               o_committed = False\<rparr>"
    by (simp add: create_item_def)
  have 4: "process_pvp_attack g pos sess now now' p opponent = Inr out_p
        \<and> rejection (o_reply out_p) \<longrightarrow>
        \<not> o_committed out_p \<and> o_rows out_p = (p, opponent)
        \<and> persisted (p, opponent) (Inr out_p) = (p, opponent)"
    using pvp_rejected [of g pos sess now now' p opponent out_p]
    by (auto simp: persisted_def)
  have 5: "p_energy p < 20 \<longrightarrow>
        process_pvp_attack g pos sess now now' p opponent =
          Inr \<lparr>o_reply = NotEnoughEnergy, o_rows = (p, opponent), o_committed = False\<rparr>"
    by (simp add: process_pvp_attack_def)
  have 6: "process_dungeon_selection now now' now'' dungeon_id dungeon p progress = Inr out_d
        \<and> rejection (o_reply out_d) \<longrightarrow>
        \<not> o_committed out_d \<and> o_rows out_d = (p, progress)
        \<and> persisted (p, progress) (Inr out_d) = (p, progress)"
    using dungeon_rejected [of now now' now'' dungeon_id dungeon p progress out_d]
    by (auto simp: persisted_def)
  have 7: "p_energy p < d_energy_cost d \<and> cooldown_expired now d progress \<longrightarrow>
        process_dungeon_selection now now' now'' dungeon_id (Some d) p progress =
          Inr \<lparr>o_reply = NotEnoughEnergy, o_rows = (p, progress), o_committed = False\<rparr>"
    by (auto simp: process_dungeon_selection_def cooldown_expired_def split: option.splits)
  from 1 2 3 4 5 6 7 show ?thesis by (intro conjI)
qed

theorem rejection_commits_nothing_witness:
  "p_energy tired_player < r_energy_cost two_material_recipe
   \<and> p_energy tired_player < 20
   \<and> p_energy tired_player < d_energy_cost crypt
   \<and> cooldown_expired 8200 crypt (Some earlier_run)
   \<and> rejection NotEnoughEnergy \<and> rejection NotEnoughMaterials
   \<and> create_item (Some two_material_recipe) tired_player [(1, 1), (2, 1)] =
        Inr \<lparr>o_reply = NotEnoughEnergy, o_rows = (tired_player, [(1, 1), (2, 1)]),
             o_committed = False\<rparr>
   \<and> process_pvp_attack (constant_rng 0) 0 empty_session 0 0 tired_player
        (Some (new_player 8 ''rival'')) =
        Inr \<lparr>o_reply = NotEnoughEnergy, o_rows = (tired_player, Some (new_player 8 ''rival'')),
             o_committed = False\<rparr>
   \<and> process_dungeon_selection 8200 8201 8202 3 (Some crypt) tired_player (Some earlier_run) =
        Inr \<lparr>o_reply = NotEnoughEnergy, o_rows = (tired_player, Some earlier_run),
             o_committed = False\<rparr>
   \<and> \<not> p_energy (new_player 7 ''hero'') < r_energy_cost two_material_recipe
   \<and> consume_materials (r_materials two_material_recipe) [(1, 1), (5, 3)] = Inl [(5, 3)]
   \<and> persisted (new_player 7 ''hero'', [(1, 1), (5, 3)])
        (Inr \<lparr>o_reply = NotEnoughMaterials, o_rows = (new_player 7 ''hero'', [(5, 3)]),
              o_committed = False\<rparr>) = (new_player 7 ''hero'', [(1, 1), (5, 3)])"
proof -
  note t = rejection_commits_nothing [where p = tired_player and rc = two_material_recipe
      and recipe = "Some two_material_recipe"
      and inventory = "[(1, 1), (2, 1)]" and inventory' = "[]"
      and g = "constant_rng 0" and pos = 0 and sess = empty_session and now = 8200
      and now' = 8201 and now'' = 8202 and opponent = "Some (new_player 8 ''rival'')"
      and dungeon_id = 3 and dungeon = "Some crypt" and d = crypt
      and progress = "Some earlier_run"
      and out = "\<lparr>o_reply = NotEnoughEnergy, o_rows = (tired_player, [(1, 1), (2, 1)]),
                   o_committed = False\<rparr>"
      and out_p = "\<lparr>o_reply = NotEnoughEnergy,
                    o_rows = (tired_player, Some (new_player 8 ''rival'')),
                    o_committed = False\<rparr>"
      and out_d = "\<lparr>o_reply = NotEnoughEnergy, o_rows = (tired_player, Some earlier_run),
                    o_committed = False\<rparr>"]
  have a: "p_energy tired_player < r_energy_cost two_material_recipe"
    "p_energy tired_player < 20" "p_energy tired_player < d_energy_cost crypt"
    "cooldown_expired 8200 crypt (Some earlier_run)"
    "rejection NotEnoughEnergy" "rejection NotEnoughMaterials"
    "\<not> p_energy (new_player 7 ''hero'') < r_energy_cost two_material_recipe"
    by (simp_all add: tired_player_def two_material_recipe_def crypt_def new_player_def
          cooldown_expired_def earlier_run_def rejection_def)
  have b: "consume_materials (r_materials two_material_recipe) [(1, 1), (5, 3)] = Inl [(5, 3)]"
    by (simp add: two_material_recipe_def first_row_def)
  from t a have c: "create_item (Some two_material_recipe) tired_player
        [(1, 1), (2, 1)] =
        Inr \<lparr>o_reply = NotEnoughEnergy, o_rows = (tired_player, [(1, 1), (2, 1)]),
             o_committed = False\<rparr>"
    by blast
  from t a have d: "process_pvp_attack (constant_rng 0) 0 empty_session 8200 8201 tired_player
        (Some (new_player 8 ''rival'')) =
        Inr \<lparr>o_reply = NotEnoughEnergy, o_rows = (tired_player, Some (new_player 8 ''rival'')),
             o_committed = False\<rparr>"
    by blast
  from a have d': "process_pvp_attack (constant_rng 0) 0 empty_session 0 0 tired_player
        (Some (new_player 8 ''rival'')) =
        Inr \<lparr>o_reply = NotEnoughEnergy, o_rows = (tired_player, Some (new_player 8 ''rival'')),
             o_committed = False\<rparr>"
    by (simp add: process_pvp_attack_def)
  from t a have e: "process_dungeon_selection 8200 8201 8202 3 (Some crypt) tired_player
        (Some earlier_run) =
        Inr \<lparr>o_reply = NotEnoughEnergy, o_rows = (tired_player, Some earlier_run),
             o_committed = False\<rparr>"
    by blast
  from a b c d' e show ?thesis by (simp add: persisted_def)
qed

text \<open>
  The claim fails for the rows held by the session: with a recipe of two materials of
  which the player has only the first, \<open>create_item\<close> takes the first material from the
  inventory of the session and then turns the request down.
\<close>

theorem rejection_changes_session_rows:
  "create_item (Some two_material_recipe) (new_player 7 ''hero'')
      [(1, 1), (5, 3)] =
     Inr \<lparr>o_reply = NotEnoughMaterials, o_rows = (new_player 7 ''hero'', [(5, 3)]),
          o_committed = False\<rparr>
   \<and> [(5, 3)] \<noteq> [(1, 1), (5 :: int, 3 :: int)]"
  by (simp add: create_item_def two_material_recipe_def new_player_def first_row_def)


section \<open>Reward settlement\<close>

text \<open>
  C7, at the code. \<open>process_battle_rewards\<close> draws the batons and then calls
  \<open>player.add_experience\<close>, which raises \<open>AttributeError\<close>: the loop over the drop table is
  never reached, no item is drawn or added, and nothing is returned or committed, whatever
  the chances in the table are. With \<open>baton_reward_min > baton_reward_max\<close> the call of
  \<open>random.randint\<close> raises \<open>ValueError\<close> before that. The example is a monster whose drop
  table lists two items of the item table with chance 1.0.
\<close>

theorem monster_rewards_raise:
  "process_battle_rewards g pos items p mon inventory =
     (if m_baton_reward_min mon > m_baton_reward_max mon then Inl ValueError
      else Inl AttributeError)
   \<and> process_battle_rewards (constant_rng 0) 0 [1 \<mapsto> sword, 3 \<mapsto> shield]
        (new_player 7 ''hero'') dropping_monster [] = Inl AttributeError"
  by (simp add: process_battle_rewards_def random_randint_def add_experience_raises
        dropping_monster_def)
end
